theory Spec2Isabelle
  imports Complex_Main
begin

text \<open>
  The diagnosis orchestration of Cura3.ai: the agent engine that runs the selected
  specialists in parallel and has their reports synthesized (agent\_engine.py), the
  specialist selector (specialist\_selector.py), the follow-up chat (chat\_service.py) and
  the route that validates a request and starts a diagnosis (routes/diagnosis.py). The
  language model behind \<open>ChatOpenAI.invoke\<close> and the parser \<open>json.loads\<close> are outside
  the repository and enter as parameters; constructing a \<open>ChatOpenAI\<close> client is taken
  to succeed.
\<close>

section \<open>Text\<close>

text \<open>
  A Python \<open>str\<close> is a sequence of Unicode code points, here a list of
  code points. \<open>asc\<close> embeds an ASCII literal.
\<close>

type_synonym str = "nat list"

definition asc :: "string \<Rightarrow> str" where
  "asc s = map of_char s"

text \<open>
  \<open>s.replace(old, new)\<close>: every non-overlapping occurrence of \<open>old\<close>, found from
  the left, is replaced; the inserted text is not scanned again. With an empty \<open>old\<close>
  Python inserts \<open>new\<close> before every character and at the end.
\<close>

fun replace :: "str \<Rightarrow> str \<Rightarrow> str \<Rightarrow> str" where
  "replace old new [] = (if old = [] then new else [])"
| "replace old new (c # cs) =
     (if old = [] then new @ c # replace old new cs
      else if take (length old) (c # cs) = old
        then new @ replace old new (drop (length old) (c # cs))
      else c # replace old new cs)"

text \<open>\<open>sep.join(xs)\<close>\<close>

fun join :: "str \<Rightarrow> str list \<Rightarrow> str" where
  "join sep [] = []"
| "join sep [x] = x"
| "join sep (x # y # ys) = x @ sep @ join sep (y # ys)"

definition startswith :: "str \<Rightarrow> str \<Rightarrow> bool" where
  "startswith t p \<longleftrightarrow> take (length p) t = p"

text \<open>
  \<open>str.isspace\<close> on one character, and \<open>str.strip()\<close>, which removes such
  characters from both ends.
\<close>

definition isspace :: "nat \<Rightarrow> bool" where
  "isspace c \<longleftrightarrow>
     c \<in> set [9, 10, 11, 12, 13, 28, 29, 30, 31, 32, 133, 160, 5760,
              8232, 8233, 8239, 8287, 12288]
     \<or> (8192 \<le> c \<and> c \<le> 8202)"

definition strip :: "str \<Rightarrow> str" where
  "strip t = rev (dropWhile isspace (rev (dropWhile isspace t)))"

text \<open>\<open>t.split("\n", 1)[-1]\<close>: what follows the first newline, or all of \<open>t\<close>.\<close>

definition split_newline_last :: "str \<Rightarrow> str" where
  "split_newline_last t =
     (case dropWhile (\<lambda>c. c \<noteq> 10) t of [] \<Rightarrow> t | _ # rest \<Rightarrow> rest)"

text \<open>
  \<open>t.rsplit(sep, 1)[0]\<close> for a non-empty \<open>sep\<close>: what precedes the last occurrence of
  \<open>sep\<close>, or all of \<open>t\<close>. The last occurrence of \<open>sep\<close> in \<open>t\<close> is the first of
  the reversed \<open>sep\<close> in the reversed \<open>t\<close>.
\<close>

fun after_first :: "str \<Rightarrow> str \<Rightarrow> str option" where
  "after_first sep [] = None"
| "after_first sep (c # cs) =
     (if take (length sep) (c # cs) = sep then Some (drop (length sep) (c # cs))
      else after_first sep cs)"

definition rsplit_first :: "str \<Rightarrow> str \<Rightarrow> str" where
  "rsplit_first sep t = (case after_first (rev sep) (rev t) of None \<Rightarrow> t | Some r \<Rightarrow> rev r)"

text \<open>\<open>str(n)\<close> for a natural number.\<close>

fun str_nat :: "nat \<Rightarrow> str" where
  "str_nat n = (if n < 10 then [48 + n] else str_nat (n div 10) @ [48 + n mod 10])"

declare str_nat.simps [simp del]

section \<open>The analyzer registry (agent\_engine.py)\<close>

text \<open>
  Each prompt of \<open>SPECIALISTS\<close> has exactly one placeholder, \<open>{medical_report}\<close>, and
  no other brace; it is kept as the text before and the text after the placeholder, so
  that \<open>PromptTemplate.from_template(p).format(medical_report=r)\<close> is
  \<open>head @ r @ tail\<close>.
\<close>

definition Cardiologist_prompt_head :: str where
  \<open>Cardiologist_prompt_head = asc
    (''\<newline>'' @
     ''            Act like a cardiologist. You will receive a medical report of a patient.\<newline>'' @
     ''            Task: Review the patient's cardiac workup, including ECG, blood tests, Holter monitor results, and echocardiogram.\<newline>'' @
     ''            Focus: Determine if there are any subtle signs of cardiac issues that could explain the patient's symptoms. Rule out any underlying heart conditions, such as arrhythmias or structural abnormalities, that might be missed on routine testing.\<newline>'' @
     ''            Recommendation: Provide guidance on any further cardiac testing or monitoring needed to ensure there are no hidden heart-related concerns. Suggest potential management strategies if a cardiac issue is identified.\<newline>'' @
     ''            Please only return the possible causes of the patient's symptoms and the recommended next steps.\<newline>'' @
     ''            Medical Report: '')\<close>

definition Cardiologist_prompt_tail :: str where
  \<open>Cardiologist_prompt_tail = asc
    (''\<newline>'' @
     ''        '')\<close>

definition Psychologist_prompt_head :: str where
  \<open>Psychologist_prompt_head = asc
    (''\<newline>'' @
     ''            Act like a psychologist. You will receive a patient's report.\<newline>'' @
     ''            Task: Review the patient's report and provide a psychological assessment.\<newline>'' @
     ''            Focus: Identify any potential mental health issues, such as anxiety, depression, or trauma, that may be affecting the patient's well-being.\<newline>'' @
     ''            Recommendation: Offer guidance on how to address these mental health concerns, including therapy, counseling, or other interventions.\<newline>'' @
     ''            Please only return the possible mental health issues and the recommended next steps.\<newline>'' @
     ''            Patient's Report: '')\<close>

definition Psychologist_prompt_tail :: str where
  \<open>Psychologist_prompt_tail = asc
    (''\<newline>'' @
     ''        '')\<close>

definition Pulmonologist_prompt_head :: str where
  \<open>Pulmonologist_prompt_head = asc
    (''\<newline>'' @
     ''            Act like a pulmonologist. You will receive a patient's report.\<newline>'' @
     ''            Task: Review the patient's report and provide a pulmonary assessment.\<newline>'' @
     ''            Focus: Identify any potential respiratory issues, such as asthma, COPD, or lung infections, that may be affecting the patient's breathing.\<newline>'' @
     ''            Recommendation: Offer guidance on how to address these respiratory concerns, including pulmonary function tests, imaging studies, or other interventions.\<newline>'' @
     ''            Please only return the possible respiratory issues and the recommended next steps.\<newline>'' @
     ''            Patient's Report: '')\<close>

definition Pulmonologist_prompt_tail :: str where
  \<open>Pulmonologist_prompt_tail = asc
    (''\<newline>'' @
     ''        '')\<close>

definition Neurologist_prompt_head :: str where
  \<open>Neurologist_prompt_head = asc
    (''\<newline>'' @
     ''            Act like a neurologist. You will receive a patient's medical report.\<newline>'' @
     ''            Task: Review the patient's neurological symptoms, imaging results, and any relevant test findings.\<newline>'' @
     ''            Focus: Identify potential neurological conditions such as neuropathy, seizure disorders, migraines, multiple sclerosis, or neurodegenerative diseases (e.g., Alzheimer's, Parkinson's).\<newline>'' @
     ''            Recommendation: Suggest further neurological testing (EEG, MRI, nerve conduction studies) and management strategies.\<newline>'' @
     ''            Please only return the possible neurological causes and the recommended next steps.\<newline>'' @
     ''            Patient's Report: '')\<close>

definition Neurologist_prompt_tail :: str where
  \<open>Neurologist_prompt_tail = asc
    (''\<newline>'' @
     ''        '')\<close>

definition Endocrinologist_prompt_head :: str where
  \<open>Endocrinologist_prompt_head = asc
    (''\<newline>'' @
     ''            Act like an endocrinologist. You will receive a patient's medical report.\<newline>'' @
     ''            Task: Review the patient's hormonal profiles, metabolic markers, and endocrine-related symptoms.\<newline>'' @
     ''            Focus: Identify potential endocrine disorders such as diabetes, thyroid disorders (hypo/hyperthyroidism), adrenal insufficiency, PCOS, or hormonal imbalances.\<newline>'' @
     ''            Recommendation: Suggest appropriate hormonal panels, imaging, and management strategies.\<newline>'' @
     ''            Please only return the possible endocrine causes and the recommended next steps.\<newline>'' @
     ''            Patient's Report: '')\<close>

definition Endocrinologist_prompt_tail :: str where
  \<open>Endocrinologist_prompt_tail = asc
    (''\<newline>'' @
     ''        '')\<close>

definition Oncologist_prompt_head :: str where
  \<open>Oncologist_prompt_head = asc
    (''\<newline>'' @
     ''            Act like an oncologist. You will receive a patient's medical report.\<newline>'' @
     ''            Task: Review the patient's lab results, imaging, biopsy reports, and symptom history for any signs of malignancy.\<newline>'' @
     ''            Focus: Identify potential neoplastic conditions, assess risk factors, and evaluate any suspicious findings that warrant further investigation for cancer.\<newline>'' @
     ''            Recommendation: Suggest appropriate screening, biopsy, imaging (CT, PET scan), tumor markers, and referral pathways.\<newline>'' @
     ''            Please only return the possible oncological concerns and the recommended next steps.\<newline>'' @
     ''            Patient's Report: '')\<close>

definition Oncologist_prompt_tail :: str where
  \<open>Oncologist_prompt_tail = asc
    (''\<newline>'' @
     ''        '')\<close>

definition Dermatologist_prompt_head :: str where
  \<open>Dermatologist_prompt_head = asc
    (''\<newline>'' @
     ''            Act like a dermatologist. You will receive a patient's medical report.\<newline>'' @
     ''            Task: Review the patient's skin-related symptoms, lesion descriptions, and any relevant history.\<newline>'' @
     ''            Focus: Identify potential dermatological conditions such as eczema, psoriasis, skin infections, autoimmune skin disorders, or suspicious moles/lesions.\<newline>'' @
     ''            Recommendation: Suggest further dermatological examination, biopsy if needed, and treatment approaches.\<newline>'' @
     ''            Please only return the possible dermatological causes and the recommended next steps.\<newline>'' @
     ''            Patient's Report: '')\<close>

definition Dermatologist_prompt_tail :: str where
  \<open>Dermatologist_prompt_tail = asc
    (''\<newline>'' @
     ''        '')\<close>

definition Gastroenterologist_prompt_head :: str where
  \<open>Gastroenterologist_prompt_head = asc
    (''\<newline>'' @
     ''            Act like a gastroenterologist. You will receive a patient's medical report.\<newline>'' @
     ''            Task: Review the patient's gastrointestinal symptoms, lab results, and any imaging or endoscopy findings.\<newline>'' @
     ''            Focus: Identify potential GI conditions such as IBS, IBD (Crohn's, ulcerative colitis), GERD, celiac disease, liver disorders, or GI malignancies.\<newline>'' @
     ''            Recommendation: Suggest appropriate testing (endoscopy, colonoscopy, stool tests, imaging) and management strategies.\<newline>'' @
     ''            Please only return the possible gastrointestinal causes and the recommended next steps.\<newline>'' @
     ''            Patient's Report: '')\<close>

definition Gastroenterologist_prompt_tail :: str where
  \<open>Gastroenterologist_prompt_tail = asc
    (''\<newline>'' @
     ''        '')\<close>

definition Orthopedist_prompt_head :: str where
  \<open>Orthopedist_prompt_head = asc
    (''\<newline>'' @
     ''            Act like an orthopedist. You will receive a patient's medical report.\<newline>'' @
     ''            Task: Review the patient's musculoskeletal symptoms, imaging results (X-ray, MRI), and physical examination findings.\<newline>'' @
     ''            Focus: Identify potential orthopedic conditions such as fractures, arthritis, tendon injuries, disc herniation, or degenerative joint diseases.\<newline>'' @
     ''            Recommendation: Suggest appropriate imaging, physical therapy, surgical consultation if needed, and pain management strategies.\<newline>'' @
     ''            Please only return the possible musculoskeletal causes and the recommended next steps.\<newline>'' @
     ''            Patient's Report: '')\<close>

definition Orthopedist_prompt_tail :: str where
  \<open>Orthopedist_prompt_tail = asc
    (''\<newline>'' @
     ''        '')\<close>

definition General_Practitioner_prompt_head :: str where
  \<open>General_Practitioner_prompt_head = asc
    (''\<newline>'' @
     ''            Act like a general practitioner / family medicine physician. You will receive a patient's medical report.\<newline>'' @
     ''            Task: Review the patient's overall health status, vital signs, symptoms, and medical history holistically.\<newline>'' @
     ''            Focus: Identify common conditions, preventive care needs, and any red flags that require specialist referral. Consider the patient's complete picture including lifestyle factors.\<newline>'' @
     ''            Recommendation: Suggest initial workup, lifestyle modifications, preventive measures, and appropriate specialist referrals.\<newline>'' @
     ''            Please only return the possible health concerns and the recommended next steps.\<newline>'' @
     ''            Patient's Report: '')\<close>

definition General_Practitioner_prompt_tail :: str where
  \<open>General_Practitioner_prompt_tail = asc
    (''\<newline>'' @
     ''        '')\<close>

record specialist =
  display_name :: str
  icon :: str
  prompt :: "str \<times> str"

definition SPECIALISTS :: "(str \<times> specialist) list" where
  "SPECIALISTS =
    [(asc ''Cardiologist'', \<lparr>display_name = asc ''Cardiologist'', icon = asc ''heart'',
        prompt = (Cardiologist_prompt_head, Cardiologist_prompt_tail)\<rparr>),
     (asc ''Psychologist'', \<lparr>display_name = asc ''Psychologist'', icon = asc ''brain'',
        prompt = (Psychologist_prompt_head, Psychologist_prompt_tail)\<rparr>),
     (asc ''Pulmonologist'', \<lparr>display_name = asc ''Pulmonologist'', icon = asc ''lungs'',
        prompt = (Pulmonologist_prompt_head, Pulmonologist_prompt_tail)\<rparr>),
     (asc ''Neurologist'', \<lparr>display_name = asc ''Neurologist'', icon = asc ''nerve'',
        prompt = (Neurologist_prompt_head, Neurologist_prompt_tail)\<rparr>),
     (asc ''Endocrinologist'', \<lparr>display_name = asc ''Endocrinologist'', icon = asc ''hormone'',
        prompt = (Endocrinologist_prompt_head, Endocrinologist_prompt_tail)\<rparr>),
     (asc ''Oncologist'', \<lparr>display_name = asc ''Oncologist'', icon = asc ''ribbon'',
        prompt = (Oncologist_prompt_head, Oncologist_prompt_tail)\<rparr>),
     (asc ''Dermatologist'', \<lparr>display_name = asc ''Dermatologist'', icon = asc ''skin'',
        prompt = (Dermatologist_prompt_head, Dermatologist_prompt_tail)\<rparr>),
     (asc ''Gastroenterologist'', \<lparr>display_name = asc ''Gastroenterologist'', icon = asc ''stomach'',
        prompt = (Gastroenterologist_prompt_head, Gastroenterologist_prompt_tail)\<rparr>),
     (asc ''Orthopedist'', \<lparr>display_name = asc ''Orthopedist'', icon = asc ''bone'',
        prompt = (Orthopedist_prompt_head, Orthopedist_prompt_tail)\<rparr>),
     (asc ''General Practitioner'', \<lparr>display_name = asc ''General Practitioner'', icon = asc ''stethoscope'',
        prompt = (General_Practitioner_prompt_head, General_Practitioner_prompt_tail)\<rparr>)]"

definition AVAILABLE_SPECIALISTS :: "str list" where
  "AVAILABLE_SPECIALISTS = map fst SPECIALISTS"

text \<open>
  \<open>TEAM_PROMPT_TEMPLATE\<close> is one literal in the source; here it is written as its three
  consecutive parts.
\<close>

definition TEAM_PROMPT_head :: str where
  \<open>TEAM_PROMPT_head = asc
    (''\<newline>'' @
     ''Act as a multidisciplinary team of healthcare professionals.\<newline>'' @
     ''You will receive specialist reports from multiple medical specialists\<newline>'' @
     ''who each independently analyzed the same patient's medical report.\<newline>'' @
     ''\<newline>'' @
     ''YOUR TASK:\<newline>'' @
     ''Analyze all specialist reports and produce a comprehensive final diagnosis report.\<newline>'' @
     ''Identify the TOP 3 most likely health issues for this patient.\<newline>'' @
     ''\<newline>'' @
     ''IMPORTANT FORMATTING RULES - you MUST follow this exact structure:\<newline>'' @
     ''- Use ONLY plain ASCII text. Do NOT use any special characters, unicode, or emojis.\<newline>'' @
     ''- Do NOT use asterisks (*), bullet points, or markdown formatting.\<newline>'' @
     ''- Use simple dashes (-) for any lists.\<newline>'' @
     ''- Use the EXACT structure shown below.\<newline>'' @
     ''\<newline>'' @
     ''OUTPUT FORMAT (follow this exactly):\<newline>'' @
     ''\<newline>'' @
     ''============================================================\<newline>'' @
     ''                  FINAL DIAGNOSIS REPORT\<newline>'' @
     ''============================================================\<newline>'' @
     ''\<newline>'' @
     ''PATIENT OVERVIEW:\<newline>'' @
     ''[Brief 2-3 sentence summary of the patient's presenting complaints\<newline>'' @
     ''and key findings across all specialist evaluations.]\<newline>'' @
     ''\<newline>'' @
     ''------------------------------------------------------------\<newline>'' @
     ''IDENTIFIED HEALTH ISSUES\<newline>'' @
     ''------------------------------------------------------------\<newline>'' @
     ''\<newline>'' @
     ''ISSUE 1: [Name of the condition]\<newline>'' @
     ''Severity: [Low / Moderate / High / Critical]\<newline>'' @
     ''Identified By: [Which specialist(s) flagged this]\<newline>'' @
     ''\<newline>'' @
     ''Reasoning:\<newline>'' @
     ''[Clear explanation of why this is suspected, referencing specific\<newline>'' @
     ''findings from the specialist reports. 3-4 sentences.]\<newline>'' @
     ''\<newline>'' @
     ''Recommended Next Steps:\<newline>'' @
     ''- [Action item 1]\<newline>'' @
     ''- [Action item 2]\<newline>'' @
     ''- [Action item 3]\<newline>'' @
     ''\<newline>'' @
     ''ISSUE 2: [Name of the condition]\<newline>'' @
     ''Severity: [Low / Moderate / High / Critical]\<newline>'' @
     ''Identified By: [Which specialist(s) flagged this]\<newline>'' @
     ''\<newline>'' @
     ''Reasoning:\<newline>'' @
     ''[Clear explanation. 3-4 sentences.]\<newline>'' @
     ''\<newline>'' @
     ''Recommended Next Steps:\<newline>'' @
     ''- [Action item 1]\<newline>'' @
     ''- [Action item 2]\<newline>'' @
     ''- [Action item 3]\<newline>'' @
     ''\<newline>'' @
     ''ISSUE 3: [Name of the condition]\<newline>'' @
     ''Severity: [Low / Moderate / High / Critical]\<newline>'' @
     ''Identified By: [Which specialist(s) flagged this]\<newline>'' @
     ''\<newline>'' @
     ''Reasoning:\<newline>'' @
     ''[Clear explanation. 3-4 sentences.]\<newline>'' @
     ''\<newline>'' @
     ''Recommended Next Steps:\<newline>'' @
     ''- [Action item 1]\<newline>'' @
     ''- [Action item 2]\<newline>'' @
     ''- [Action item 3]\<newline>'' @
     ''\<newline>'' @
     ''------------------------------------------------------------\<newline>'' @
     ''PRIORITY RECOMMENDATION\<newline>'' @
     ''------------------------------------------------------------\<newline>'' @
     ''[1-2 sentences on which issue should be addressed first and why.]\<newline>'' @
     ''\<newline>'' @
     ''------------------------------------------------------------\<newline>'' @
     ''NOTE: This report is generated by AI for research and educational\<newline>'' @
     ''purposes only. It is NOT a substitute for professional medical\<newline>'' @
     ''advice, diagnosis, or treatment. Always consult a qualified\<newline>'' @
     ''healthcare provider for medical decisions.\<newline>'' @
     ''------------------------------------------------------------\<newline>'' @
     ''\<newline>'')\<close>

definition TEAM_PROMPT_tail :: str where
  \<open>TEAM_PROMPT_tail = asc
    (''\<newline>'')\<close>

definition TEAM_PROMPT_TEMPLATE :: str where
  "TEAM_PROMPT_TEMPLATE =
     TEAM_PROMPT_head @ asc ''{specialist_reports_section}'' @ TEAM_PROMPT_tail"

text \<open>
  \<open>SELECTOR_PROMPT\<close> (specialist\_selector.py) and \<open>CHAT_SYSTEM_PROMPT\<close>
  (chat\_service.py), split at their placeholders in the same way.
\<close>

definition SELECTOR_PROMPT_head :: str where
  \<open>SELECTOR_PROMPT_head = asc
    (''\<newline>'' @
     ''You are a medical triage AI. You will receive a patient's medical report.\<newline>'' @
     ''Your task is to determine which medical specialists should review this report.\<newline>'' @
     ''\<newline>'' @
     ''Available specialists:\<newline>'')\<close>

definition SELECTOR_PROMPT_mid :: str where
  \<open>SELECTOR_PROMPT_mid = asc
    (''\<newline>'' @
     ''\<newline>'' @
     ''Analyze the report carefully and select the TOP 3-5 most relevant specialists\<newline>'' @
     ''based on the patient's symptoms, conditions, and test results mentioned.\<newline>'' @
     ''\<newline>'' @
     ''IMPORTANT: Return ONLY a valid JSON array of specialist names, nothing else.\<newline>'' @
     ''Example: ["Cardiologist", "Pulmonologist", "General Practitioner"]\<newline>'' @
     ''\<newline>'' @
     ''Do NOT include any explanation, just the JSON array.\<newline>'' @
     ''\<newline>'' @
     ''Medical Report:\<newline>'')\<close>

definition SELECTOR_PROMPT_tail :: str where
  \<open>SELECTOR_PROMPT_tail = asc
    (''\<newline>'')\<close>

definition CHAT_SYSTEM_PROMPT_head :: str where
  \<open>CHAT_SYSTEM_PROMPT_head = asc
    (''\<newline>'' @
     ''You are Cura3.ai, a medical AI assistant. You are helping a user understand\<newline>'' @
     ''their medical diagnosis report.\<newline>'' @
     ''\<newline>'' @
     ''CONTEXT - The following diagnosis was generated for the patient:\<newline>'')\<close>

definition CHAT_SYSTEM_PROMPT_tail :: str where
  \<open>CHAT_SYSTEM_PROMPT_tail = asc
    (''\<newline>'' @
     ''\<newline>'' @
     ''RULES:\<newline>'' @
     ''1. Answer the user's questions based ONLY on the diagnosis and specialist reports provided above.\<newline>'' @
     ''2. Use plain, easy-to-understand language. Avoid excessive medical jargon unless the user seems to be a medical professional.\<newline>'' @
     ''3. Be helpful and empathetic. This is about someone's health.\<newline>'' @
     ''4. Always remind users that this is AI-generated and they should consult a real doctor.\<newline>'' @
     ''5. If the user asks something outside the scope of the diagnosis, politely redirect them.\<newline>'' @
     ''6. Do NOT make up information not present in the reports.\<newline>'' @
     ''7. Use plain ASCII text only, no markdown, no emojis, no special characters.\<newline>'')\<close>

section \<open>The remote call port\<close>

text \<open>
  \<open>ChatOpenAI(temperature=..., model=...)\<close> is a record of its two options, and a call
  is the options together with the prompt given to \<open>model.invoke\<close>. The remote model is
  a parameter: it answers a call, knowing the calls made before it, either by raising
  (\<open>Inl\<close> of \<open>str(e)\<close>, the only thing the handlers read from the exception) or with
  a response content. The list of calls made so far is the state the program threads through.
\<close>

type_synonym cause = str

record ChatOpenAI =
  temperature :: real
  model :: str

type_synonym call = "ChatOpenAI \<times> str"

text \<open>
  \<open>response.content\<close> is a \<open>str\<close> or a list whose items are dicts or other values.
  An item is a dict with a \<open>str\<close> under the key \<open>"text"\<close>, a dict whose \<open>"text"\<close>
  value is not a \<open>str\<close> (given by its type's name), or anything else (given by its
  \<open>str()\<close>).
\<close>

datatype item = TextBlock str | BadTextBlock str | Plain str

datatype content = Str str | Parts "item list"

type_synonym port = "call list \<Rightarrow> call \<Rightarrow> cause + content"

definition invoke :: "port \<Rightarrow> ChatOpenAI \<Rightarrow> str \<Rightarrow> call list \<Rightarrow> (cause + content) \<times> call list" where
  "invoke remote m p calls = (remote calls (m, p), calls @ [(m, p)])"

text \<open>
  The handling of \<open>response.content\<close> shared by the four callers: a list is joined by
  spaces, and \<open>str.join\<close> raises a \<open>TypeError\<close> at the first item that is not a
  \<open>str\<close>.
\<close>

fun first_bad :: "nat \<Rightarrow> item list \<Rightarrow> (nat \<times> str) option" where
  "first_bad i [] = None"
| "first_bad i (BadTextBlock ty # items) = Some (i, ty)"
| "first_bad i (_ # items) = first_bad (Suc i) items"

fun item_text :: "item \<Rightarrow> str" where
  "item_text (TextBlock t) = t"
| "item_text (BadTextBlock ty) = []"
| "item_text (Plain t) = t"

definition content_text :: "content \<Rightarrow> cause + str" where
  "content_text c =
     (case c of
        Str t \<Rightarrow> Inr t
      | Parts items \<Rightarrow>
          (case first_bad 0 items of
             Some (i, ty) \<Rightarrow>
               Inl (asc ''sequence item '' @ str_nat i @
                    asc '': expected str instance, '' @ ty @ asc '' found'')
           | None \<Rightarrow> Inr (join (asc '' '') (map item_text items))))"

text \<open>What a \<open>try\<close> block around \<open>model.invoke\<close> and the join ends with.\<close>

definition response_text :: "cause + content \<Rightarrow> cause + str" where
  "response_text r = (case r of Inl e \<Rightarrow> Inl e | Inr c \<Rightarrow> content_text c)"

section \<open>The agent engine (agent\_engine.py)\<close>

text \<open>
  The exceptions that leave a function: \<open>KeyError\<close> with the missing key,
  \<open>ValueError\<close> with its message, and the route's \<open>HTTPException\<close> with its status
  code and the list of invalid names that its detail message shows. An exception caught by
  a handler is only ever read through \<open>str(e)\<close> and is a \<open>cause\<close>.
\<close>

datatype error = KeyError str | ValueError str | HTTPException nat "str list"

record specialist_report =
  specialist_name :: str
  report_content :: str

record diagnosis =
  specialist_reports :: "specialist_report list"
  final_diagnosis :: str

definition replacements :: "(nat \<times> str) list" where
  "replacements =
     [(0x2018, asc [CHR 0x27]), (0x2019, asc [CHR 0x27]),
      (0x201C, asc [CHR 0x22]), (0x201D, asc [CHR 0x22]),
      (0x2013, asc ''-''), (0x2014, asc ''--''),
      (0x2026, asc ''...''), (0x2022, asc ''-''),
      (0x00B7, asc ''-''), (0x2023, asc ''-''),
      (0x25CF, asc ''-''), (0x25CB, asc ''-''),
      (0x2192, asc ''->'')]"

definition sanitize_text :: "str \<Rightarrow> str" where
  "sanitize_text t = foldl (\<lambda>t (uc, ac). replace [uc] ac t) t replacements"

definition get_model :: ChatOpenAI where
  "get_model = \<lparr>temperature = 0, model = asc ''gpt-4.1''\<rparr>"

text \<open>
  \<open>_run_specialist\<close>. The registry lookup is outside the \<open>try\<close>: an unknown name
  raises \<open>KeyError\<close> before any call is made.
\<close>

definition run_specialist ::
  "port \<Rightarrow> str \<Rightarrow> str \<Rightarrow> call list \<Rightarrow> (error + specialist_report) \<times> call list" where
  "run_specialist remote name medical_report calls =
     (case map_of SPECIALISTS name of
        None \<Rightarrow> (Inl (KeyError name), calls)
      | Some spec \<Rightarrow>
          (let p = fst (prompt spec) @ medical_report @ snd (prompt spec);
               (response, calls') = invoke remote get_model p calls
           in (Inr \<lparr>specialist_name = name,
                    report_content =
                      (case response_text response of
                         Inr t \<Rightarrow> sanitize_text t
                       | Inl e \<Rightarrow> asc ''Error: Could not generate report. '' @ e)\<rparr>,
               calls')))"

text \<open>\<open>_run_team_diagnosis\<close>\<close>

definition escape_braces :: "str \<Rightarrow> str" where
  "escape_braces t = replace (asc ''}'') (asc ''}}'') (replace (asc ''{'') (asc ''{{'') t)"

definition reports_section :: "specialist_report list \<Rightarrow> str" where
  "reports_section rs =
     foldl (\<lambda>section r. section @ asc ''\<newline>'' @ specialist_name r @ asc '' Report:\<newline>'' @
                           escape_braces (report_content r) @ asc ''\<newline>'')
       [] rs"

definition team_prompt :: "specialist_report list \<Rightarrow> str" where
  "team_prompt rs =
     replace (asc ''{specialist_reports_section}'') (reports_section rs) TEAM_PROMPT_TEMPLATE"

definition run_team_diagnosis :: "port \<Rightarrow> specialist_report list \<Rightarrow> call list \<Rightarrow> str \<times> call list" where
  "run_team_diagnosis remote rs calls =
     (let (response, calls') = invoke remote get_model (team_prompt rs) calls
      in (case response_text response of
            Inr t \<Rightarrow> sanitize_text t
          | Inl e \<Rightarrow> asc ''Error generating final diagnosis: '' @ e,
          calls'))"

text \<open>
  \<open>run_diagnosis\<close>. Each worker thread runs \<open>_run_specialist\<close> for one position of
  the list and shares with the others only the remote port, which it calls at most once;
  so an interleaving of the workers is the order in which they run, a list of positions.
  A future is \<open>None\<close> until its worker has finished; a worker writes the future of its
  own position.
\<close>

type_synonym 'a future = "(error + 'a) option"

fun run_workers ::
  "port \<Rightarrow> str \<Rightarrow> str list \<Rightarrow> nat list \<Rightarrow> specialist_report future list \<times> call list
     \<Rightarrow> specialist_report future list \<times> call list" where
  "run_workers remote medical_report names [] st = st"
| "run_workers remote medical_report names (i # order) (futures, calls) =
     (if i < length names then
        (let (r, calls') = run_specialist remote (names ! i) medical_report calls
         in run_workers remote medical_report names order (futures[i := Some r], calls'))
      else run_workers remote medical_report names order (futures, calls))"

text \<open>
  \<open>asyncio.gather\<close>: it does not return while a future is pending; it raises the
  exception of the first worker that finished with one; otherwise it returns the results
  in the order of the futures it was given.
\<close>

fun exception_of :: "'a future \<Rightarrow> error option" where
  "exception_of (Some (Inl e)) = Some e"
| "exception_of _ = None"

fun result_of :: "'a future \<Rightarrow> 'a option" where
  "result_of (Some (Inr r)) = Some r"
| "result_of _ = None"

definition gather :: "nat list \<Rightarrow> 'a future list \<Rightarrow> (error + 'a list) option" where
  "gather order futures =
     (if None \<in> set futures then None
      else (case List.map_filter
                   (\<lambda>i. if i < length futures then exception_of (futures ! i) else None) order of
              e # _ \<Rightarrow> Some (Inl e)
            | [] \<Rightarrow> Some (Inr (List.map_filter result_of futures))))"

text \<open>
  An empty list makes \<open>ThreadPoolExecutor(max_workers=0)\<close> raise \<open>ValueError\<close>. The
  executor's \<open>with\<close> block waits for every worker, also when \<open>gather\<close> raises. The
  result \<open>None\<close> stands for a call that never returns.
\<close>

definition run_diagnosis ::
  "port \<Rightarrow> str \<Rightarrow> str list \<Rightarrow> nat list \<Rightarrow> call list \<Rightarrow> (error + diagnosis) option \<times> call list" where
  "run_diagnosis remote medical_report specialists order calls =
     (if specialists = [] then
        (Some (Inl (ValueError (asc ''max_workers must be greater than 0''))), calls)
      else
        (let (futures, calls1) =
               run_workers remote medical_report specialists order
                 (replicate (length specialists) None, calls)
         in (case gather order futures of
               None \<Rightarrow> (None, calls1)
             | Some (Inl e) \<Rightarrow> (Some (Inl e), calls1)
             | Some (Inr reports) \<Rightarrow>
                 (let (final, calls2) = run_team_diagnosis remote reports calls1
                  in (Some (Inr \<lparr>specialist_reports = reports, final_diagnosis = final\<rparr>),
                      calls2)))))"

text \<open>An order in which \<open>n\<close> workers can run: every position once.\<close>

definition is_schedule :: "nat \<Rightarrow> nat list \<Rightarrow> bool" where
  "is_schedule n order \<longleftrightarrow> distinct order \<and> set order = {..<n}"

section \<open>The specialist selector (specialist\_selector.py)\<close>

text \<open>
  What \<open>json.loads\<close> can return. A float is kept as its numeral, since nothing here
  computes with it; the keys of an object are distinct, as those of a \<open>dict\<close> are.
  \<open>json.loads\<close> itself belongs to the standard library and is a parameter of
  \<open>auto_select_specialists\<close>: it returns a value or raises (\<open>Inl\<close>).
\<close>

datatype json =
  JNull | JBool bool | JInt int | JFloat str | JStr str
  | JArr "json list" | JObj "(str \<times> json) list"

text \<open>
  \<open>for s in selected\<close>: a list gives its elements, a dict its keys, a \<open>str\<close> its
  characters; anything else raises \<open>TypeError\<close>.
\<close>

fun iterate :: "json \<Rightarrow> cause + json list" where
  "iterate (JArr xs) = Inr xs"
| "iterate (JObj kvs) = Inr (map (\<lambda>kv. JStr (fst kv)) kvs)"
| "iterate (JStr s) = Inr (map (\<lambda>c. JStr [c]) s)"
| "iterate JNull = Inl (asc [CHR 0x27] @ asc ''NoneType'' @ asc [CHR 0x27] @ asc '' object is not iterable'')"
| "iterate (JBool b) = Inl (asc [CHR 0x27] @ asc ''bool'' @ asc [CHR 0x27] @ asc '' object is not iterable'')"
| "iterate (JInt i) = Inl (asc [CHR 0x27] @ asc ''int'' @ asc [CHR 0x27] @ asc '' object is not iterable'')"
| "iterate (JFloat f) = Inl (asc [CHR 0x27] @ asc ''float'' @ asc [CHR 0x27] @ asc '' object is not iterable'')"

text \<open>
  \<open>s in AVAILABLE_SPECIALISTS\<close>: membership in a list of \<open>str\<close> compares with
  \<open>==\<close>, which only a \<open>str\<close> can satisfy.
\<close>

definition is_available :: "json \<Rightarrow> bool" where
  "is_available x = (case x of JStr s \<Rightarrow> s \<in> set AVAILABLE_SPECIALISTS | _ \<Rightarrow> False)"

fun str_of :: "json \<Rightarrow> str option" where
  "str_of (JStr s) = Some s"
| "str_of _ = None"

text \<open>
  Lines 73 to 81: validation, padding and the cap. The elements kept are all \<open>str\<close>;
  the result is read as the list of \<open>str\<close> the function is declared to return.
\<close>

definition select_valid :: "json \<Rightarrow> cause + str list" where
  "select_valid selected =
     (case iterate selected of
        Inl e \<Rightarrow> Inl e
      | Inr items \<Rightarrow>
          (let valid = filter is_available items;
               valid = (if length valid < 2 \<and> JStr (asc ''General Practitioner'') \<notin> set valid
                        then valid @ [JStr (asc ''General Practitioner'')] else valid)
           in Inr (List.map_filter str_of (take 5 valid))))"

text \<open>Lines 66 to 69: the response is stripped and a code fence around it removed.\<close>

definition strip_fences :: "str \<Rightarrow> str" where
  "strip_fences t =
     (let content = strip t
      in if startswith content (asc ''```'')
         then strip (rsplit_first (asc ''```'') (split_newline_last content))
         else content)"

definition selector_prompt :: "str \<Rightarrow> str" where
  "selector_prompt medical_report =
     SELECTOR_PROMPT_head @ join (asc ''\<newline>'') (map (\<lambda>s. asc ''- '' @ s) AVAILABLE_SPECIALISTS) @
     SELECTOR_PROMPT_mid @ medical_report @ SELECTOR_PROMPT_tail"

definition selector_model :: ChatOpenAI where
  "selector_model = \<lparr>temperature = 0, model = asc ''gpt-4.1''\<rparr>"

definition fallback :: "str list" where
  "fallback = [asc ''Cardiologist'', asc ''Psychologist'', asc ''Pulmonologist'']"

definition auto_select_specialists ::
  "port \<Rightarrow> (str \<Rightarrow> cause + json) \<Rightarrow> str \<Rightarrow> call list \<Rightarrow> str list \<times> call list" where
  "auto_select_specialists remote json_loads medical_report calls =
     (let (response, calls') = invoke remote selector_model (selector_prompt medical_report) calls
      in (case response_text response of
            Inl e \<Rightarrow> fallback
          | Inr t \<Rightarrow>
              (case json_loads (strip_fences t) of
                 Inl e \<Rightarrow> fallback
               | Inr selected \<Rightarrow>
                   (case select_valid selected of
                      Inl e \<Rightarrow> fallback
                    | Inr valid \<Rightarrow> valid)),
          calls'))"

section \<open>The follow-up chat (chat\_service.py)\<close>

text \<open>A stored message is a dict read with \<open>msg.get\<close>: either key may be absent.\<close>

record message =
  msg_role :: "str option"
  msg_content :: "str option"

definition chat_model :: ChatOpenAI where
  "chat_model = \<lparr>temperature = 3 / 10, model = asc ''gpt-4.1''\<rparr>"

definition last10 :: "'a list \<Rightarrow> 'a list" where
  "last10 xs = drop (length xs - 10) xs"

definition chat_prompt :: "str \<Rightarrow> message list \<Rightarrow> str \<Rightarrow> str" where
  "chat_prompt diagnosis_context chat_history user_message =
     (let system_prompt = CHAT_SYSTEM_PROMPT_head @ diagnosis_context @ CHAT_SYSTEM_PROMPT_tail;
          messages =
            map (\<lambda>msg. (case msg_role msg of None \<Rightarrow> asc ''user'' | Some r \<Rightarrow> r,
                        case msg_content msg of None \<Rightarrow> [] | Some c \<Rightarrow> c))
              (last10 chat_history)
            @ [(asc ''user'', user_message)]
      in foldl (\<lambda>combined (r, c).
                  combined @ (if r = asc ''user'' then asc ''Patient'' else asc ''Cura3.ai'') @
                  asc '': '' @ c @ asc ''\<newline>\<newline>'')
           (system_prompt @ asc ''\<newline>\<newline>'') messages
         @ asc ''Cura3.ai:'')"

definition generate_chat_response ::
  "port \<Rightarrow> str \<Rightarrow> message list \<Rightarrow> str \<Rightarrow> call list \<Rightarrow> str \<times> call list" where
  "generate_chat_response remote diagnosis_context chat_history user_message calls =
     (let (response, calls') =
            invoke remote chat_model (chat_prompt diagnosis_context chat_history user_message) calls
      in (case response_text response of
            Inr t \<Rightarrow> strip t
          | Inl e \<Rightarrow>
              asc ''I apologize, but I encountered an error processing your question. Please try again. (Error: ''
              @ e @ asc '')'',
          calls'))"

section \<open>The diagnosis route (diagnosis.py)\<close>

text \<open>
  \<open>run_diagnosis_endpoint\<close> from the point where the stored report has been read
  (lines 90 to 103); the database around it is outside. The request's list is optional.
  The order in which the workers run is the scheduler's choice, once their number is
  known.
\<close>

definition run_diagnosis_endpoint ::
  "port \<Rightarrow> (str \<Rightarrow> cause + json) \<Rightarrow> (nat \<Rightarrow> nat list) \<Rightarrow> str \<Rightarrow> str list option \<Rightarrow> call list
     \<Rightarrow> (error + diagnosis) option \<times> call list" where
  "run_diagnosis_endpoint remote json_loads scheduler report selected_specialists calls =
     (let (selected, calls1) =
            (case selected_specialists of
               None \<Rightarrow> auto_select_specialists remote json_loads report calls
             | Some [] \<Rightarrow> auto_select_specialists remote json_loads report calls
             | Some (s # ss) \<Rightarrow> (s # ss, calls));
          invalid = filter (\<lambda>s. s \<notin> set AVAILABLE_SPECIALISTS) selected
      in if invalid \<noteq> [] then (Some (Inl (HTTPException 400 invalid)), calls1)
         else run_diagnosis remote report selected (scheduler (length selected)) calls1)"

section \<open>Notions used to state the results\<close>

text \<open>
  The prompt a worker sends for a registered name, the call it makes, and the calls that
  the workers running before position \<open>i\<close> have made.
\<close>

definition specialist_prompt :: "str \<Rightarrow> str \<Rightarrow> str" where
  "specialist_prompt name medical_report =
     (case map_of SPECIALISTS name of
        None \<Rightarrow> []
      | Some spec \<Rightarrow> fst (prompt spec) @ medical_report @ snd (prompt spec))"

definition worker_call :: "str \<Rightarrow> str list \<Rightarrow> nat \<Rightarrow> call" where
  "worker_call medical_report names i = (get_model, specialist_prompt (names ! i) medical_report)"

definition calls_before :: "str \<Rightarrow> str list \<Rightarrow> nat list \<Rightarrow> nat \<Rightarrow> call list" where
  "calls_before medical_report names order i =
     map (worker_call medical_report names) (takeWhile (\<lambda>j. j \<noteq> i) order)"

text \<open>
  The entry a worker at position \<open>i\<close> writes when the calls in \<open>hist\<close> precede its
  own, and the entries of all positions under an order of running.
\<close>

definition report_text :: "cause + str \<Rightarrow> str" where
  "report_text r =
     (case r of
        Inr t \<Rightarrow> sanitize_text t
      | Inl e \<Rightarrow> asc ''Error: Could not generate report. '' @ e)"

definition worker_report :: "port \<Rightarrow> str \<Rightarrow> str list \<Rightarrow> call list \<Rightarrow> nat \<Rightarrow> specialist_report" where
  "worker_report remote medical_report names hist i =
     \<lparr>specialist_name = names ! i,
      report_content =
        report_text (response_text (remote hist (worker_call medical_report names i)))\<rparr>"

definition worker_reports ::
  "port \<Rightarrow> str \<Rightarrow> str list \<Rightarrow> nat list \<Rightarrow> call list \<Rightarrow> specialist_report list" where
  "worker_reports remote medical_report names order calls =
     map (\<lambda>i. worker_report remote medical_report names
                (calls @ calls_before medical_report names order i) i)
       [0..<length names]"

text \<open>
  A future that its worker has settled: a report for a registered name, \<open>KeyError\<close>
  for any other.
\<close>

definition settled :: "str list \<Rightarrow> nat \<Rightarrow> specialist_report future \<Rightarrow> bool" where
  "settled names i f =
     (case f of
        None \<Rightarrow> False
      | Some (Inl e) \<Rightarrow> e = KeyError (names ! i) \<and> names ! i \<notin> set AVAILABLE_SPECIALISTS
      | Some (Inr r) \<Rightarrow> names ! i \<in> set AVAILABLE_SPECIALISTS)"

text \<open>The 13 characters that \<open>_sanitize_text\<close> maps.\<close>

definition mapped_chars :: "nat set" where
  "mapped_chars = fst ` set replacements"

section \<open>Remote ports and parsers used in the examples\<close>

text \<open>
  A scripted port answers the \<open>k\<close>-th call it receives with the \<open>k\<close>-th outcome of its
  script, and raises once the script is exhausted.
\<close>

definition scripted :: "(cause + content) list \<Rightarrow> port" where
  "scripted outcomes calls c =
     (if length calls < length outcomes then outcomes ! length calls
      else Inl (asc ''Connection error.''))"

text \<open>
  \<open>json.loads\<close> on the texts the examples use: the nine JSON texts below, on which it
  returns the value shown, and \<open>I cannot help with that\<close>, on which it raises with the
  message shown. (Every other text is taken as unparsable here.)
\<close>

definition json_loads_examples :: "str \<Rightarrow> cause + json" where
  \<open>json_loads_examples t =
     (if t = asc ''[]'' then Inr (JArr [])
      else if t = asc ''[1]'' then Inr (JArr [JInt 1])
      else if t = asc ''7'' then Inr (JInt 7)
      else if t = asc ''[1, "Oncologist"]'' then Inr (JArr [JInt 1, JStr (asc ''Oncologist'')])
      else if t = asc ''{"Cardiologist": 1}'' then Inr (JObj [(asc ''Cardiologist'', JInt 1)])
      else if t = asc ''"ok"'' then Inr (JStr (asc ''ok''))
      else if t = asc ''["Cardiologist"]'' then Inr (JArr [JStr (asc ''Cardiologist'')])
      else if t = asc ''["Cardiologist", "Cardiologist"]''
        then Inr (JArr [JStr (asc ''Cardiologist''), JStr (asc ''Cardiologist'')])
      else if t = asc ''["Oncologist", "Neurologist", "Cardiologist", "Orthopedist", "Psychologist", "Dermatologist", "Pulmonologist"]''
        then Inr (JArr (map JStr [asc ''Oncologist'', asc ''Neurologist'', asc ''Cardiologist'',
               asc ''Orthopedist'', asc ''Psychologist'', asc ''Dermatologist'', asc ''Pulmonologist'']))
      else Inl (asc ''Expecting value: line 1 column 1 (char 0)''))\<close>

text \<open>The order of running that starts with the last position.\<close>

definition backwards :: "nat \<Rightarrow> nat list" where
  "backwards n = rev [0..<n]"

section \<open>Auxiliary facts\<close>

subsection \<open>Replacement and sanitizing\<close>

lemma replace_single:
  "replace [c] new t = concat (map (\<lambda>x. if x = c then new else [x]) t)"
  by (induction t) simp_all

lemma asc_eq_iff: "asc s = asc t \<longleftrightarrow> s = t"
  unfolding asc_def by (simp add: inj_on_def)

lemma set_replace_single:
  "set (replace [c] new t) = (set t - {c}) \<union> (if c \<in> set t then set new else {})"
  by (induction t) (auto simp: replace_single)

lemma foldl_replace_absent:
  assumes "\<forall>(uc, ac) \<in> set reps. d \<notin> set ac"
    and "d \<in> fst ` set reps \<or> d \<notin> set t"
  shows "d \<notin> set (foldl (\<lambda>t (uc, ac). replace [uc] ac t) t reps)"
  using assms
proof (induction reps arbitrary: t)
  case Nil
  then show ?case by simp
next
  case (Cons p reps)
  obtain uc ac where p: "p = (uc, ac)" by (cases p)
  have ac: "d \<notin> set ac" using Cons.prems(1) p by auto
  have rest: "\<forall>(uc, ac) \<in> set reps. d \<notin> set ac" using Cons.prems(1) by auto
  have "d \<in> fst ` set reps \<or> d \<notin> set (replace [uc] ac t)"
    using Cons.prems(2) ac p by (auto simp: set_replace_single split: if_splits)
  from Cons.IH[OF rest this] show ?case by (simp add: p)
qed

lemma replacements_ascii: "\<forall>(uc, ac) \<in> set replacements. \<forall>d \<in> set ac. d < 128"
  by (simp add: replacements_def asc_def)

lemma mapped_chars_eq:
  "mapped_chars = {0x2018, 0x2019, 0x201C, 0x201D, 0x2013, 0x2014, 0x2026, 0x2022,
                   0x00B7, 0x2023, 0x25CF, 0x25CB, 0x2192}"
  by (simp add: mapped_chars_def replacements_def)

lemma mapped_chars_ge: "d \<in> mapped_chars \<Longrightarrow> 128 \<le> d"
  by (auto simp: mapped_chars_eq)

lemma sanitize_text_clean: "set (sanitize_text t) \<inter> mapped_chars = {}"
proof -
  have "d \<notin> set (sanitize_text t)" if d: "d \<in> mapped_chars" for d
  proof -
    have "\<forall>(uc, ac) \<in> set replacements. d \<notin> set ac"
      using replacements_ascii mapped_chars_ge[OF d] by fastforce
    then show ?thesis
      unfolding sanitize_text_def using d
      by (intro foldl_replace_absent) (auto simp: mapped_chars_def)
  qed
  then show ?thesis by blast
qed

subsection \<open>The workers\<close>

lemma AVAILABLE_SPECIALISTS_eq:
  "AVAILABLE_SPECIALISTS =
     [asc ''Cardiologist'', asc ''Psychologist'', asc ''Pulmonologist'', asc ''Neurologist'',
      asc ''Endocrinologist'', asc ''Oncologist'', asc ''Dermatologist'',
      asc ''Gastroenterologist'', asc ''Orthopedist'', asc ''General Practitioner'']"
  by (simp add: AVAILABLE_SPECIALISTS_def SPECIALISTS_def)

lemma map_of_SPECIALISTS_None:
  "map_of SPECIALISTS name = None \<longleftrightarrow> name \<notin> set AVAILABLE_SPECIALISTS"
  by (simp add: AVAILABLE_SPECIALISTS_def map_of_eq_None_iff)

lemma run_specialist_unknown:
  "name \<notin> set AVAILABLE_SPECIALISTS \<Longrightarrow>
     run_specialist remote name medical_report calls = (Inl (KeyError name), calls)"
  using map_of_SPECIALISTS_None[of name] by (simp add: run_specialist_def)

lemma run_specialist_known:
  assumes "name \<in> set AVAILABLE_SPECIALISTS"
  shows "run_specialist remote name medical_report calls =
     (Inr \<lparr>specialist_name = name,
           report_content =
             report_text (response_text
               (remote calls (get_model, specialist_prompt name medical_report)))\<rparr>,
      calls @ [(get_model, specialist_prompt name medical_report)])"
proof -
  obtain spec where "map_of SPECIALISTS name = Some spec"
    using assms map_of_SPECIALISTS_None by (cases "map_of SPECIALISTS name") auto
  then show ?thesis
    by (simp add: run_specialist_def specialist_prompt_def invoke_def report_text_def Let_def)
qed

lemma run_workers_length:
  "length (fst (run_workers remote medical_report names order (futures, calls))) = length futures"
  by (induction order arbitrary: futures calls) (auto split: prod.splits)

lemma run_workers_known:
  assumes "set names \<subseteq> set AVAILABLE_SPECIALISTS"
    and "distinct order" and "set order \<subseteq> {..<length names}"
    and "length futures = length names"
  shows "snd (run_workers remote medical_report names order (futures, calls)) =
           calls @ map (worker_call medical_report names) order
       \<and> (\<forall>i < length names.
            fst (run_workers remote medical_report names order (futures, calls)) ! i =
              (if i \<in> set order
               then Some (Inr (worker_report remote medical_report names
                      (calls @ calls_before medical_report names order i) i))
               else futures ! i))"
  using assms(2-4)
proof (induction order arbitrary: futures calls)
  case Nil
  then show ?case by simp
next
  case (Cons j order)
  let ?c = "worker_call medical_report names j"
  let ?r = "Inr (worker_report remote medical_report names calls j)"
  have j: "j < length names" using Cons.prems(2) by simp
  then have known: "names ! j \<in> set AVAILABLE_SPECIALISTS" using assms(1) by auto
  have step: "run_specialist remote (names ! j) medical_report calls = (?r, calls @ [?c])"
    using run_specialist_known[OF known]
    by (simp add: worker_report_def worker_call_def)
  have unfold: "run_workers remote medical_report names (j # order) (futures, calls) =
      run_workers remote medical_report names order (futures[j := Some ?r], calls @ [?c])"
    using j step by simp
  have IH: "snd (run_workers remote medical_report names order (futures[j := Some ?r], calls @ [?c])) =
           (calls @ [?c]) @ map (worker_call medical_report names) order
       \<and> (\<forall>i < length names.
            fst (run_workers remote medical_report names order (futures[j := Some ?r], calls @ [?c])) ! i =
              (if i \<in> set order
               then Some (Inr (worker_report remote medical_report names
                      ((calls @ [?c]) @ calls_before medical_report names order i) i))
               else (futures[j := Some ?r]) ! i))"
    using Cons.prems by (intro Cons.IH) auto
  have notin: "j \<notin> set order" using Cons.prems(1) by simp
  show ?case
    unfolding unfold using IH notin j Cons.prems(3)
    by (auto simp: calls_before_def)
qed

subsection \<open>Gathering and synthesis\<close>

lemma run_workers_all:
  assumes "set names \<subseteq> set AVAILABLE_SPECIALISTS" and "is_schedule (length names) order"
  shows "run_workers remote medical_report names order (replicate (length names) None, calls) =
     (map (\<lambda>r. Some (Inr r)) (worker_reports remote medical_report names order calls),
      calls @ map (worker_call medical_report names) order)"
proof -
  let ?run = "run_workers remote medical_report names order (replicate (length names) None, calls)"
  have d: "distinct order" and s: "set order = {..<length names}"
    using assms(2) by (simp_all add: is_schedule_def)
  have k: "snd ?run = calls @ map (worker_call medical_report names) order
       \<and> (\<forall>i < length names.
            fst ?run ! i =
              (if i \<in> set order
               then Some (Inr (worker_report remote medical_report names
                      (calls @ calls_before medical_report names order i) i))
               else replicate (length names) None ! i))"
    using assms(1) d s by (intro run_workers_known) simp_all
  have len: "length (fst ?run) = length names"
    by (simp add: run_workers_length)
  have "fst ?run = map (\<lambda>r. Some (Inr r)) (worker_reports remote medical_report names order calls)"
    using k s len by (intro nth_equalityI) (simp_all add: worker_reports_def)
  with k show ?thesis by (simp add: prod_eq_iff)
qed

lemma gather_results:
  "gather order (map (\<lambda>r. Some (Inr r)) rs) = Some (Inr rs)"
proof -
  have a: "List.map_filter
             (\<lambda>i. if i < length (map (\<lambda>r. Some (Inr r)) rs)
                  then exception_of (map (\<lambda>r. Some (Inr r)) rs ! i) else None) order = []"
    by (simp add: map_filter_def)
  have b: "List.map_filter result_of (map (\<lambda>r. Some (Inr r)) rs) = rs"
    by (induction rs) simp_all
  have c: "None \<notin> set (map (\<lambda>r. Some (Inr r)) rs)" by auto
  show ?thesis unfolding gather_def a b using c by simp
qed

lemma run_team_diagnosis_eq:
  "run_team_diagnosis remote rs calls =
     (case response_text (remote calls (get_model, team_prompt rs)) of
        Inr t \<Rightarrow> sanitize_text t
      | Inl e \<Rightarrow> asc ''Error generating final diagnosis: '' @ e,
      calls @ [(get_model, team_prompt rs)])"
  by (simp add: run_team_diagnosis_def invoke_def)

lemma worker_reports_names:
  "map specialist_name (worker_reports remote medical_report names order calls) = names"
  by (simp add: worker_reports_def worker_report_def comp_def map_nth)

lemma replace_skip:
  "c \<notin> set h \<Longrightarrow> replace (c # rest) new (h @ t) = h @ replace (c # rest) new t"
  by (induction h) auto

lemma replace_here:
  "old \<noteq> [] \<Longrightarrow> replace old new (old @ t) = new @ replace old new t"
  by (cases old) simp_all

lemma reports_section_eq:
  "reports_section rs =
     concat (map (\<lambda>r. asc ''\<newline>'' @ specialist_name r @ asc '' Report:\<newline>'' @
                       escape_braces (report_content r) @ asc ''\<newline>'') rs)"
proof -
  have "foldl (\<lambda>section r. section @ f r) acc rs = acc @ concat (map f rs)" for f :: "specialist_report \<Rightarrow> str" and acc
    by (induction rs arbitrary: acc) simp_all
  then show ?thesis unfolding reports_section_def by simp
qed

lemma escape_braces_eq:
  "escape_braces t =
     concat (map (\<lambda>c. if c = 123 then [123, 123] else if c = 125 then [125, 125] else [c]) t)"
proof -
  have l: "asc ''{'' = [123]" "asc ''{{'' = [123, 123]" "asc ''}'' = [125]" "asc ''}}'' = [125, 125]"
    by (simp_all add: asc_def)
  show ?thesis
    unfolding escape_braces_def l replace_single
    by (induction t) simp_all
qed

lemma run_diagnosis_known:
  assumes "specialists \<noteq> []" and "set specialists \<subseteq> set AVAILABLE_SPECIALISTS"
    and "is_schedule (length specialists) order"
  shows "run_diagnosis remote medical_report specialists order calls =
     (let reports = worker_reports remote medical_report specialists order calls;
          calls1 = calls @ map (worker_call medical_report specialists) order
      in (Some (Inr \<lparr>specialist_reports = reports,
                     final_diagnosis = fst (run_team_diagnosis remote reports calls1)\<rparr>),
          calls1 @ [(get_model, team_prompt reports)]))"
  using assms(1)
  by (simp add: run_diagnosis_def run_workers_all[OF assms(2,3)] gather_results
      run_team_diagnosis_eq Let_def)


lemma TEAM_PROMPT_head_no_brace: "123 \<notin> set TEAM_PROMPT_head"
  by (simp add: TEAM_PROMPT_head_def asc_def)

lemma team_prompt_eq:
  "team_prompt rs = TEAM_PROMPT_head @ reports_section rs @ TEAM_PROMPT_tail"
proof -
  have ph: "asc ''{specialist_reports_section}'' = 123 # asc ''specialist_reports_section}''"
    by (simp add: asc_def)
  have tail: "replace (123 # asc ''specialist_reports_section}'') new TEAM_PROMPT_tail = TEAM_PROMPT_tail" for new
    by (simp add: TEAM_PROMPT_tail_def asc_def)
  show ?thesis
    unfolding team_prompt_def TEAM_PROMPT_TEMPLATE_def ph
    by (simp add: replace_skip[OF TEAM_PROMPT_head_no_brace] replace_here tail)
qed

subsection \<open>Selection\<close>

lemma map_filter_str_of_JStr: "List.map_filter str_of (map JStr names) = names"
  by (induction names) simp_all

lemma filter_is_available_JStr:
  "filter is_available (map JStr names) = map JStr (filter (\<lambda>s. s \<in> set AVAILABLE_SPECIALISTS) names)"
  by (induction names) (simp_all add: is_available_def)

lemma select_valid_names:
  "select_valid (JArr (map JStr names)) =
     Inr (take 5 (let valid = filter (\<lambda>s. s \<in> set AVAILABLE_SPECIALISTS) names
                  in if length valid < 2 \<and> asc ''General Practitioner'' \<notin> set valid
                     then valid @ [asc ''General Practitioner''] else valid))"
proof -
  let ?v = "filter (\<lambda>s. s \<in> set AVAILABLE_SPECIALISTS) names"
  let ?gp = "asc ''General Practitioner''"
  define c where "c \<longleftrightarrow> length ?v < 2 \<and> ?gp \<notin> set ?v"
  have inj: "JStr ?gp \<in> set (map JStr ?v) \<longleftrightarrow> ?gp \<in> set ?v"
    by auto
  have 1: "select_valid (JArr (map JStr names)) =
      Inr (List.map_filter str_of (take 5 (if c then map JStr ?v @ [JStr ?gp] else map JStr ?v)))"
    unfolding select_valid_def iterate.simps sum.case filter_is_available_JStr Let_def
      length_map inj c_def ..
  have 2: "(if c then map JStr ?v @ [JStr ?gp] else map JStr ?v) =
           map JStr (if c then ?v @ [?gp] else ?v)"
    by simp
  have 3: "List.map_filter str_of (take 5 (map JStr xs)) = take 5 xs" for xs
    by (simp add: take_map map_filter_str_of_JStr)
  have "select_valid (JArr (map JStr names)) = Inr (take 5 (if c then ?v @ [?gp] else ?v))"
    by (simp only: 1 2 3)
  then show ?thesis
    by (simp only: Let_def c_def)
qed

lemma GP_available: "asc ''General Practitioner'' \<in> set AVAILABLE_SPECIALISTS"
  by (simp add: AVAILABLE_SPECIALISTS_eq)

lemma fallback_available: "set fallback \<subseteq> set AVAILABLE_SPECIALISTS"
  by (simp add: fallback_def AVAILABLE_SPECIALISTS_eq)

lemma available_JStr:
  "is_available x \<Longrightarrow> \<exists>s. x = JStr s \<and> s \<in> set AVAILABLE_SPECIALISTS"
  by (cases x) (simp_all add: is_available_def)

lemma map_filter_available:
  assumes "\<forall>x \<in> set xs. is_available x"
  shows "set (List.map_filter str_of xs) \<subseteq> set AVAILABLE_SPECIALISTS
       \<and> length (List.map_filter str_of xs) = length xs"
  using assms
proof (induction xs)
  case Nil
  then show ?case by simp
next
  case (Cons x xs)
  then obtain s where "x = JStr s" "s \<in> set AVAILABLE_SPECIALISTS"
    using available_JStr[of x] by auto
  with Cons show ?case by simp
qed

lemma select_valid_result:
  assumes "select_valid selected = Inr valid"
  shows "valid \<noteq> [] \<and> length valid \<le> 5 \<and> set valid \<subseteq> set AVAILABLE_SPECIALISTS"
proof -
  obtain items where it: "iterate selected = Inr items"
    using assms by (auto simp: select_valid_def split: sum.splits)
  define v where "v = filter is_available items"
  define w where "w = (if length v < 2 \<and> JStr (asc ''General Practitioner'') \<notin> set v
                        then v @ [JStr (asc ''General Practitioner'')] else v)"
  have "Inr (List.map_filter str_of (take 5 w)) = (Inr valid :: cause + str list)"
    using assms unfolding select_valid_def it sum.case Let_def v_def[symmetric] w_def[symmetric] .
  then have valid: "valid = List.map_filter str_of (take 5 w)"
    by simp
  have gp: "is_available (JStr (asc ''General Practitioner''))"
    by (simp add: is_available_def GP_available)
  have "\<forall>x \<in> set w. is_available x"
    using gp by (auto simp: w_def v_def)
  then have av: "\<forall>x \<in> set (take 5 w). is_available x"
    by (meson in_set_takeD)
  have ne: "w \<noteq> []"
    by (cases v) (auto simp: w_def)
  have "length valid = min (length w) 5" and "set valid \<subseteq> set AVAILABLE_SPECIALISTS"
    using map_filter_available[OF av] valid by simp_all
  then show ?thesis using ne by (cases w) auto
qed

lemma auto_select_specialists_eq:
  "auto_select_specialists remote json_loads medical_report calls =
     (case response_text (remote calls (selector_model, selector_prompt medical_report)) of
        Inl e \<Rightarrow> fallback
      | Inr t \<Rightarrow>
          (case json_loads (strip_fences t) of
             Inl e \<Rightarrow> fallback
           | Inr selected \<Rightarrow>
               (case select_valid selected of
                  Inl e \<Rightarrow> fallback
                | Inr valid \<Rightarrow> valid)),
      calls @ [(selector_model, selector_prompt medical_report)])"
  by (simp add: auto_select_specialists_def invoke_def)

lemma auto_select_specialists_result:
  "fst (auto_select_specialists remote json_loads medical_report calls) \<noteq> []
   \<and> length (fst (auto_select_specialists remote json_loads medical_report calls)) \<le> 5
   \<and> set (fst (auto_select_specialists remote json_loads medical_report calls))
       \<subseteq> set AVAILABLE_SPECIALISTS"
proof -
  have fb: "fallback \<noteq> [] \<and> length fallback \<le> 5 \<and> set fallback \<subseteq> set AVAILABLE_SPECIALISTS"
    using fallback_available by (simp add: fallback_def)
  show ?thesis
    unfolding auto_select_specialists_eq fst_conv
    using fb select_valid_result
    by (auto split: sum.splits)
qed

subsection \<open>Plain texts and independence of later calls\<close>

lemma replace_absent: "c \<notin> set t \<Longrightarrow> replace [c] new t = t"
  by (induction t) simp_all

lemma sanitize_text_ascii:
  assumes "\<forall>c \<in> set t. c < 128"
  shows "sanitize_text t = t"
proof -
  have "c \<notin> set t" if "128 \<le> c" for c
    using assms that by auto
  then show ?thesis
    by (simp add: sanitize_text_def replacements_def replace_absent)
qed

lemma is_schedule_length: "is_schedule n order \<Longrightarrow> length order = n"
  by (metis is_schedule_def distinct_card card_lessThan)

lemma length_takeWhile_neq:
  "i \<in> set order \<Longrightarrow> length (takeWhile (\<lambda>j. j \<noteq> i) order) < length order"
  by (induction order) auto

lemma worker_reports_cong:
  assumes "is_schedule (length names) order"
    and "\<forall>h c. length h < length calls + length names \<longrightarrow> remote' h c = remote h c"
  shows "worker_reports remote' medical_report names order calls =
         worker_reports remote medical_report names order calls"
proof -
  have "worker_report remote' medical_report names
          (calls @ calls_before medical_report names order i) i =
        worker_report remote medical_report names
          (calls @ calls_before medical_report names order i) i"
    if "i < length names" for i
  proof -
    have "i \<in> set order"
      using assms(1) that by (simp add: is_schedule_def)
    then have "length (calls_before medical_report names order i) < length names"
      using length_takeWhile_neq[of i order] is_schedule_length[OF assms(1)]
      by (simp add: calls_before_def)
    then have "length (calls @ calls_before medical_report names order i)
                 < length calls + length names"
      by simp
    with assms(2) have "remote' (calls @ calls_before medical_report names order i)
                          (worker_call medical_report names i) =
                        remote (calls @ calls_before medical_report names order i)
                          (worker_call medical_report names i)"
      by blast
    then show ?thesis
      by (simp add: worker_report_def)
  qed
  then show ?thesis
    by (simp add: worker_reports_def)
qed

lemma worker_reports_nth:
  "i < length names \<Longrightarrow>
     worker_reports remote medical_report names order calls ! i =
       worker_report remote medical_report names
         (calls @ calls_before medical_report names order i) i"
  by (simp add: worker_reports_def)

lemma length_worker_reports:
  "length (worker_reports remote medical_report names order calls) = length names"
  by (simp add: worker_reports_def)

subsection \<open>Unknown names and the route\<close>

lemma run_specialist_settled:
  "settled names j (Some (fst (run_specialist remote (names ! j) medical_report calls)))"
proof (cases "names ! j \<in> set AVAILABLE_SPECIALISTS")
  case True
  then show ?thesis
    by (simp add: run_specialist_known settled_def)
next
  case False
  then show ?thesis
    by (simp add: run_specialist_unknown settled_def)
qed

lemma run_workers_settled:
  assumes "length futures = length names"
    and "\<forall>i < length names. i \<in> set order \<or> settled names i (futures ! i)"
  shows "\<forall>i < length names.
           settled names i (fst (run_workers remote medical_report names order (futures, calls)) ! i)"
  using assms
proof (induction order arbitrary: futures calls)
  case Nil
  then show ?case by simp
next
  case (Cons j order)
  show ?case
  proof (cases "j < length names")
    case True
    obtain r calls' where step: "run_specialist remote (names ! j) medical_report calls = (r, calls')"
      by (cases "run_specialist remote (names ! j) medical_report calls")
    have r: "settled names j (Some r)"
      using run_specialist_settled[of names j remote medical_report calls] step by simp
    have "\<forall>i < length names. i \<in> set order \<or> settled names i (futures[j := Some r] ! i)"
    proof (intro allI impI)
      fix i assume i: "i < length names"
      show "i \<in> set order \<or> settled names i (futures[j := Some r] ! i)"
      proof (cases "i = j")
        case True
        then show ?thesis using r i Cons.prems(1) by simp
      next
        case False
        then show ?thesis using Cons.prems(2) i by auto
      qed
    qed
    with Cons.prems(1)
    have "\<forall>i < length names.
            settled names i
              (fst (run_workers remote medical_report names order (futures[j := Some r], calls')) ! i)"
      by (intro Cons.IH) simp_all
    then show ?thesis using True step by simp
  next
    case False
    have "\<forall>i < length names. i \<in> set order \<or> settled names i (futures ! i)"
      using Cons.prems(2) False by auto
    with Cons.prems(1)
    have "\<forall>i < length names.
            settled names i (fst (run_workers remote medical_report names order (futures, calls)) ! i)"
      by (intro Cons.IH)
    then show ?thesis using False by simp
  qed
qed

lemma in_set_map_filter:
  "y \<in> set (List.map_filter f xs) \<longleftrightarrow> (\<exists>x \<in> set xs. f x = Some y)"
  by (induction xs) (auto split: option.splits)

lemma gather_settled_unknown:
  assumes len: "length futures = length names"
    and all: "\<forall>i < length names. settled names i (futures ! i)"
    and ord: "set order = {..<length names}"
    and unk: "\<not> set names \<subseteq> set AVAILABLE_SPECIALISTS"
  shows "\<exists>name \<in> set names. name \<notin> set AVAILABLE_SPECIALISTS
           \<and> gather order futures = Some (Inl (KeyError name))"
proof -
  let ?f = "\<lambda>i. if i < length futures then exception_of (futures ! i) else None"
  have none: "None \<notin> set futures"
  proof
    assume "None \<in> set futures"
    then obtain i where "i < length futures" "futures ! i = None"
      by (auto simp: in_set_conv_nth)
    then show False using all len by (auto simp: settled_def)
  qed
  from unk obtain x where x: "x \<in> set names" "x \<notin> set AVAILABLE_SPECIALISTS"
    by auto
  from x(1) obtain i0 where "i0 < length names" "names ! i0 = x"
    by (meson in_set_conv_nth)
  with x(2) have i0: "i0 < length names" "names ! i0 \<notin> set AVAILABLE_SPECIALISTS"
    by simp_all
  then have "settled names i0 (futures ! i0)"
    using all by simp
  then have "futures ! i0 = Some (Inl (KeyError (names ! i0)))"
    using i0(2) by (auto simp: settled_def split: option.splits sum.splits)
  then have "?f i0 = Some (KeyError (names ! i0))"
    using i0(1) len by simp
  moreover have "i0 \<in> set order"
    using i0(1) ord by simp
  ultimately have "KeyError (names ! i0) \<in> set (List.map_filter ?f order)"
    unfolding in_set_map_filter by blast
  then obtain e es where L: "List.map_filter ?f order = e # es"
    by (cases "List.map_filter ?f order") auto
  then have "e \<in> set (List.map_filter ?f order)"
    by simp
  then obtain i where i: "i \<in> set order" "?f i = Some e"
    unfolding in_set_map_filter by blast
  then have lt: "i < length names"
    using ord by simp
  then have fi: "exception_of (futures ! i) = Some e"
    using i(2) len by simp
  have "settled names i (futures ! i)"
    using all lt by simp
  with fi have "e = KeyError (names ! i)" "names ! i \<notin> set AVAILABLE_SPECIALISTS"
    by (auto simp: settled_def split: option.splits sum.splits)
  moreover have "gather order futures = Some (Inl e)"
    using none L by (simp add: gather_def)
  ultimately show ?thesis
    using lt by auto
qed

lemma run_diagnosis_unknown:
  assumes "specialists \<noteq> []" and "\<not> set specialists \<subseteq> set AVAILABLE_SPECIALISTS"
    and "is_schedule (length specialists) order"
  shows "\<exists>name \<in> set specialists. name \<notin> set AVAILABLE_SPECIALISTS
           \<and> fst (run_diagnosis remote medical_report specialists order calls) =
               Some (Inl (KeyError name))"
proof -
  let ?run = "run_workers remote medical_report specialists order
                (replicate (length specialists) None, calls)"
  have ord: "set order = {..<length specialists}"
    using assms(3) by (simp add: is_schedule_def)
  have all: "\<forall>i < length specialists. settled specialists i (fst ?run ! i)"
    using ord by (intro run_workers_settled) simp_all
  have len: "length (fst ?run) = length specialists"
    by (simp add: run_workers_length)
  from gather_settled_unknown[OF len all ord assms(2)]
  obtain name where name: "name \<in> set specialists" "name \<notin> set AVAILABLE_SPECIALISTS"
    "gather order (fst ?run) = Some (Inl (KeyError name))"
    by blast
  obtain futures calls1 where run: "?run = (futures, calls1)"
    by (cases ?run)
  have "fst (run_diagnosis remote medical_report specialists order calls) =
        Some (Inl (KeyError name))"
    using assms(1) name(3) by (simp add: run_diagnosis_def run)
  with name(1,2) show ?thesis by blast
qed

lemma run_diagnosis_empty:
  "run_diagnosis remote medical_report [] order calls =
     (Some (Inl (ValueError (asc ''max_workers must be greater than 0''))), calls)"
  by (simp add: run_diagnosis_def)

lemma run_diagnosis_endpoint_unknown:
  assumes "\<not> set names \<subseteq> set AVAILABLE_SPECIALISTS"
  shows "run_diagnosis_endpoint remote json_loads scheduler report (Some names) calls =
     (Some (Inl (HTTPException 400 (filter (\<lambda>s. s \<notin> set AVAILABLE_SPECIALISTS) names))), calls)"
proof -
  have "filter (\<lambda>s. s \<notin> set AVAILABLE_SPECIALISTS) names \<noteq> []"
    using assms by (auto simp: filter_empty_conv)
  moreover obtain s ss where "names = s # ss"
    using assms by (cases names) auto
  ultimately show ?thesis
    by (simp add: run_diagnosis_endpoint_def)
qed

lemma run_diagnosis_endpoint_known:
  assumes "names \<noteq> []" and "set names \<subseteq> set AVAILABLE_SPECIALISTS"
  shows "run_diagnosis_endpoint remote json_loads scheduler report (Some names) calls =
     run_diagnosis remote report names (scheduler (length names)) calls"
proof -
  have "filter (\<lambda>s. s \<notin> set AVAILABLE_SPECIALISTS) names = []"
    using assms(2) by (auto simp: filter_empty_conv)
  moreover obtain s ss where "names = s # ss"
    using assms(1) by (cases names) auto
  ultimately show ?thesis
    by (simp add: run_diagnosis_endpoint_def)
qed

lemma run_diagnosis_endpoint_auto:
  assumes "selected = None \<or> selected = Some []"
  shows "run_diagnosis_endpoint remote json_loads scheduler report selected calls =
     run_diagnosis remote report
       (fst (auto_select_specialists remote json_loads report calls))
       (scheduler (length (fst (auto_select_specialists remote json_loads report calls))))
       (snd (auto_select_specialists remote json_loads report calls))"
proof -
  let ?sel = "fst (auto_select_specialists remote json_loads report calls)"
  have "filter (\<lambda>s. s \<notin> set AVAILABLE_SPECIALISTS) ?sel = []"
    using auto_select_specialists_result[of remote json_loads report calls]
    by (auto simp: filter_empty_conv)
  then show ?thesis
    using assms by (auto simp: run_diagnosis_endpoint_def split: prod.splits)
qed

lemma is_schedule_backwards: "is_schedule n (backwards n)"
  by (auto simp: is_schedule_def backwards_def)

lemma run_diagnosis_cases:
  assumes "is_schedule (length specialists) order"
  shows "fst (run_diagnosis remote medical_report specialists order calls) \<noteq> None
       \<and> ((\<exists>e. fst (run_diagnosis remote medical_report specialists order calls) = Some (Inl e))
            \<longleftrightarrow> specialists = [] \<or> \<not> set specialists \<subseteq> set AVAILABLE_SPECIALISTS)"
proof (cases "specialists = []")
  case True
  then show ?thesis
    by (simp add: run_diagnosis_empty)
next
  case ne: False
  show ?thesis
  proof (cases "set specialists \<subseteq> set AVAILABLE_SPECIALISTS")
    case True
    then show ?thesis
      using ne by (simp add: run_diagnosis_known[OF ne True assms] Let_def)
  next
    case False
    from run_diagnosis_unknown[OF ne False assms, of remote medical_report calls]
    show ?thesis
      using ne False by auto
  qed
qed

lemma run_diagnosis_endpoint_cases:
  assumes "\<forall>n. is_schedule n (scheduler n)"
  shows "(\<exists>d. fst (run_diagnosis_endpoint remote json_loads scheduler report selected calls) =
               Some (Inr d))
       \<or> (\<exists>names. selected = Some names \<and> \<not> set names \<subseteq> set AVAILABLE_SPECIALISTS
              \<and> run_diagnosis_endpoint remote json_loads scheduler report selected calls =
                  (Some (Inl (HTTPException 400
                     (filter (\<lambda>s. s \<notin> set AVAILABLE_SPECIALISTS) names))), calls))"
proof (cases "selected = None \<or> selected = Some []")
  case True
  let ?sel = "fst (auto_select_specialists remote json_loads report calls)"
  have ne: "?sel \<noteq> []" and known: "set ?sel \<subseteq> set AVAILABLE_SPECIALISTS"
    using auto_select_specialists_result[of remote json_loads report calls] by simp_all
  have sch: "is_schedule (length ?sel) (scheduler (length ?sel))"
    using assms by simp
  show ?thesis
    by (simp add: run_diagnosis_endpoint_auto[OF True] run_diagnosis_known[OF ne known sch] Let_def)
next
  case False
  then obtain names where sel: "selected = Some names" and ne: "names \<noteq> []"
    by (cases selected) auto
  show ?thesis
  proof (cases "set names \<subseteq> set AVAILABLE_SPECIALISTS")
    case True
    have sch: "is_schedule (length names) (scheduler (length names))"
      using assms by simp
    show ?thesis
      by (simp add: sel run_diagnosis_endpoint_known[OF ne True]
          run_diagnosis_known[OF ne True sch] Let_def)
  next
    case False
    then show ?thesis
      using sel run_diagnosis_endpoint_unknown[OF False] by blast
  qed
qed

text \<open>
  \<open>run_diagnosis\<close> itself does not look at the names before it starts the workers:
  called with a registered and an unknown name, it has sent the registered worker's call
  by the time it raises. Its one caller, the route, has checked the names before.
\<close>

lemma run_diagnosis_alone_starts_workers:
  "run_diagnosis remote medical_report [asc ''Cardiologist'', asc ''Quack''] [0, 1] calls =
     (Some (Inl (KeyError (asc ''Quack''))),
      calls @ [(get_model, specialist_prompt (asc ''Cardiologist'') medical_report)])"
proof -
  have c: "asc ''Cardiologist'' \<in> set AVAILABLE_SPECIALISTS"
    by (simp add: AVAILABLE_SPECIALISTS_eq)
  have q: "asc ''Quack'' \<notin> set AVAILABLE_SPECIALISTS"
    by (simp add: AVAILABLE_SPECIALISTS_eq asc_eq_iff)
  show ?thesis
    by (simp add: run_diagnosis_def run_specialist_known[OF c] run_specialist_unknown[OF q]
        gather_def)
qed

subsection \<open>The calls made\<close>

lemma run_specialist_calls:
  "\<exists>new. snd (run_specialist remote name medical_report calls) = calls @ new
         \<and> (\<forall>c \<in> set new. fst c = get_model)"
proof (cases "name \<in> set AVAILABLE_SPECIALISTS")
  case True
  then show ?thesis
    by (simp add: run_specialist_known)
next
  case False
  then show ?thesis
    by (simp add: run_specialist_unknown)
qed

lemma run_workers_calls:
  "\<exists>new. snd (run_workers remote medical_report names order (futures, calls)) = calls @ new
         \<and> (\<forall>c \<in> set new. fst c = get_model)"
proof (induction order arbitrary: futures calls)
  case Nil
  then show ?case by simp
next
  case (Cons j order)
  show ?case
  proof (cases "j < length names")
    case True
    obtain r calls' where step: "run_specialist remote (names ! j) medical_report calls = (r, calls')"
      by (cases "run_specialist remote (names ! j) medical_report calls")
    from run_specialist_calls[of remote "names ! j" medical_report calls] step
    obtain new1 where n1: "calls' = calls @ new1" "\<forall>c \<in> set new1. fst c = get_model"
      by auto
    from Cons.IH[of "futures[j := Some r]" calls']
    obtain new2 where n2:
      "snd (run_workers remote medical_report names order (futures[j := Some r], calls')) =
         calls' @ new2" "\<forall>c \<in> set new2. fst c = get_model"
      by auto
    have "snd (run_workers remote medical_report names (j # order) (futures, calls)) =
          calls @ (new1 @ new2)"
      using True step n1(1) n2(1) by simp
    moreover have "\<forall>c \<in> set (new1 @ new2). fst c = get_model"
      using n1(2) n2(2) by auto
    ultimately show ?thesis by blast
  next
    case False
    then show ?thesis using Cons.IH[of futures calls] by simp
  qed
qed

lemma run_diagnosis_calls:
  "\<exists>new. snd (run_diagnosis remote medical_report specialists order calls) = calls @ new
         \<and> (\<forall>c \<in> set new. fst c = get_model)"
proof (cases "specialists = []")
  case True
  then show ?thesis by (simp add: run_diagnosis_empty)
next
  case False
  let ?run = "run_workers remote medical_report specialists order
                (replicate (length specialists) None, calls)"
  obtain futures calls1 where run: "?run = (futures, calls1)"
    by (cases ?run)
  from run_workers_calls[of remote medical_report specialists order
      "replicate (length specialists) None" calls] run
  obtain new where new: "calls1 = calls @ new" "\<forall>c \<in> set new. fst c = get_model"
    by auto
  show ?thesis
  proof (cases "gather order futures")
    case None
    then show ?thesis using False run new by (auto simp: run_diagnosis_def)
  next
    case (Some res)
    show ?thesis
    proof (cases res)
      case (Inl e)
      then show ?thesis using False run new Some by (auto simp: run_diagnosis_def)
    next
      case (Inr reports)
      have "snd (run_diagnosis remote medical_report specialists order calls) =
            calls @ (new @ [(get_model, team_prompt reports)])"
        using False run new(1) Some Inr by (simp add: run_diagnosis_def run_team_diagnosis_eq)
      moreover have "\<forall>c \<in> set (new @ [(get_model, team_prompt reports)]). fst c = get_model"
        using new(2) by auto
      ultimately show ?thesis by blast
    qed
  qed
qed

lemma generate_chat_response_calls:
  "snd (generate_chat_response remote diagnosis_context chat_history user_message calls) =
     calls @ [(chat_model, chat_prompt diagnosis_context chat_history user_message)]"
  by (simp add: generate_chat_response_def invoke_def)

subsection \<open>Responses that parse to an iterable value\<close>

lemma filter_is_available_eq:
  "filter is_available items =
     map JStr (filter (\<lambda>s. s \<in> set AVAILABLE_SPECIALISTS)
                 (concat (map (\<lambda>x. case x of JStr s \<Rightarrow> [s] | _ \<Rightarrow> []) items)))"
proof (induction items)
  case Nil
  then show ?case by simp
next
  case (Cons x items)
  then show ?case by (cases x) (simp_all add: is_available_def)
qed

lemma select_valid_iterable:
  assumes "iterate v = Inr items"
  shows "select_valid v =
     Inr (take 5 (let valid = filter (\<lambda>s. s \<in> set AVAILABLE_SPECIALISTS)
                                (concat (map (\<lambda>x. case x of JStr s \<Rightarrow> [s] | _ \<Rightarrow> []) items))
                  in if length valid < 2 \<and> asc ''General Practitioner'' \<notin> set valid
                     then valid @ [asc ''General Practitioner''] else valid))"
proof -
  let ?v = "filter (\<lambda>s. s \<in> set AVAILABLE_SPECIALISTS)
              (concat (map (\<lambda>x. case x of JStr s \<Rightarrow> [s] | _ \<Rightarrow> []) items))"
  let ?gp = "asc ''General Practitioner''"
  define c where "c \<longleftrightarrow> length ?v < 2 \<and> ?gp \<notin> set ?v"
  have inj: "JStr ?gp \<in> set (map JStr ?v) \<longleftrightarrow> ?gp \<in> set ?v"
    by auto
  have 1: "select_valid v =
      Inr (List.map_filter str_of (take 5 (if c then map JStr ?v @ [JStr ?gp] else map JStr ?v)))"
    unfolding select_valid_def assms sum.case filter_is_available_eq Let_def
      length_map inj c_def ..
  have 2: "(if c then map JStr ?v @ [JStr ?gp] else map JStr ?v) =
           map JStr (if c then ?v @ [?gp] else ?v)"
    by simp
  have 3: "List.map_filter str_of (take 5 (map JStr xs)) = take 5 xs" for xs
    by (simp add: take_map map_filter_str_of_JStr)
  have "select_valid v = Inr (take 5 (if c then ?v @ [?gp] else ?v))"
    by (simp only: 1 2 3)
  then show ?thesis
    by (simp only: Let_def c_def)
qed

lemma strs_of_keys:
  "concat (map (\<lambda>x. case x of JStr s \<Rightarrow> [s] | _ \<Rightarrow> []) (map (\<lambda>kv. JStr (fst kv)) kvs)) =
     map fst kvs"
  by (induction kvs) simp_all

lemma strs_of_chars:
  "concat (map (\<lambda>x. case x of JStr s \<Rightarrow> [s] | _ \<Rightarrow> []) (map (\<lambda>c. JStr [c]) s)) =
     map (\<lambda>c. [c]) s"
  by (induction s) simp_all

lemma select_valid_candidates:
  assumes "(\<exists>items. v = JArr items
              \<and> names = concat (map (\<lambda>x. case x of JStr s \<Rightarrow> [s] | _ \<Rightarrow> []) items))
         \<or> (\<exists>kvs. v = JObj kvs \<and> names = map fst kvs)
         \<or> (\<exists>s. v = JStr s \<and> names = map (\<lambda>c. [c]) s)"
  shows "select_valid v =
     Inr (take 5 (let valid = filter (\<lambda>s. s \<in> set AVAILABLE_SPECIALISTS) names
                  in if length valid < 2 \<and> asc ''General Practitioner'' \<notin> set valid
                     then valid @ [asc ''General Practitioner''] else valid))"
proof -
  consider items where "v = JArr items"
      "names = concat (map (\<lambda>x. case x of JStr s \<Rightarrow> [s] | _ \<Rightarrow> []) items)"
    | kvs where "v = JObj kvs" "names = map fst kvs"
    | s where "v = JStr s" "names = map (\<lambda>c. [c]) s"
    using assms by blast
  then show ?thesis
  proof cases
    case 1
    have "iterate v = Inr items"
      by (simp add: 1(1))
    from select_valid_iterable[OF this] show ?thesis
      unfolding 1(2) .
  next
    case 2
    have "iterate v = Inr (map (\<lambda>kv. JStr (fst kv)) kvs)"
      by (simp add: 2(1))
    from select_valid_iterable[OF this] show ?thesis
      unfolding 2(2) strs_of_keys .
  next
    case 3
    have "iterate v = Inr (map (\<lambda>c. JStr [c]) s)"
      by (simp add: 3(1))
    from select_valid_iterable[OF this] show ?thesis
      unfolding 3(2) strs_of_chars .
  qed
qed

section \<open>Results\<close>

text \<open>
  C1. For a non-empty list of registered names, any remote port (so any outcome of any
  worker) and any order in which the workers run, \<open>run_diagnosis\<close> returns, and its
  \<open>specialist_reports\<close> has one entry per requested name, the entry at position \<open>i\<close>
  bearing the \<open>i\<close>-th requested name and being what the worker of position \<open>i\<close> wrote.
\<close>

theorem run_diagnosis_one_report_per_name_in_order:
  assumes "specialists \<noteq> []"
    and "set specialists \<subseteq> set AVAILABLE_SPECIALISTS"
    and "is_schedule (length specialists) order"
  shows "\<exists>d. fst (run_diagnosis remote medical_report specialists order calls) = Some (Inr d)
           \<and> length (specialist_reports d) = length specialists
           \<and> map specialist_name (specialist_reports d) = specialists
           \<and> (\<forall>i < length specialists.
                 specialist_name (specialist_reports d ! i) = specialists ! i
                 \<and> specialist_reports d ! i =
                     worker_report remote medical_report specialists
                       (calls @ calls_before medical_report specialists order i) i)"
proof -
  let ?rs = "worker_reports remote medical_report specialists order calls"
  have names: "map specialist_name ?rs = specialists"
    by (rule worker_reports_names)
  then have len: "length ?rs = length specialists"
    by (metis length_map)
  have nth: "specialist_name (?rs ! i) = specialists ! i" if "i < length specialists" for i
    using names len that by (metis nth_map)
  show ?thesis
    using names len nth
    by (simp add: run_diagnosis_known[OF assms] Let_def worker_reports_nth)
qed

theorem run_diagnosis_one_report_per_name_in_order_witness:
  "[asc ''Oncologist'', asc ''Cardiologist'', asc ''General Practitioner''] \<noteq> []
   \<and> set [asc ''Oncologist'', asc ''Cardiologist'', asc ''General Practitioner'']
       \<subseteq> set AVAILABLE_SPECIALISTS
   \<and> is_schedule 3 [2, 0, 1]
   \<and> (\<exists>d. fst (run_diagnosis (scripted [Inr (Str (asc ''stable'')), Inl (asc ''timeout'')])
               (asc ''chest pain'')
               [asc ''Oncologist'', asc ''Cardiologist'', asc ''General Practitioner'']
               [2, 0, 1] []) = Some (Inr d)
         \<and> map specialist_name (specialist_reports d) =
             [asc ''Oncologist'', asc ''Cardiologist'', asc ''General Practitioner''])"
proof -
  let ?names = "[asc ''Oncologist'', asc ''Cardiologist'', asc ''General Practitioner'']"
  have n: "?names \<noteq> []"
    by simp
  have a: "set ?names \<subseteq> set AVAILABLE_SPECIALISTS"
    by (simp add: AVAILABLE_SPECIALISTS_eq)
  have b: "is_schedule 3 [2, 0, 1]"
    by (auto simp: is_schedule_def)
  have b': "is_schedule (length ?names) [2, 0, 1]"
    by (auto simp: is_schedule_def)
  let ?run = "fst (run_diagnosis (scripted [Inr (Str (asc ''stable'')), Inl (asc ''timeout'')])
            (asc ''chest pain'') ?names [2, 0, 1] [])"
  from run_diagnosis_one_report_per_name_in_order[OF n a b',
      of "scripted [Inr (Str (asc ''stable'')), Inl (asc ''timeout'')]" "asc ''chest pain''" "[]"]
  obtain d where d: "?run = Some (Inr d)
           \<and> length (specialist_reports d) = length ?names
           \<and> map specialist_name (specialist_reports d) = ?names
           \<and> (\<forall>i < length ?names.
                 specialist_name (specialist_reports d ! i) = ?names ! i
                 \<and> specialist_reports d ! i =
                     worker_report (scripted [Inr (Str (asc ''stable'')), Inl (asc ''timeout'')])
                       (asc ''chest pain'') ?names
                       ([] @ calls_before (asc ''chest pain'') ?names [2, 0, 1] i) i)" ..
  from d have 1: "?run = Some (Inr d)"
    by (elim conjE)
  from d have 2: "map specialist_name (specialist_reports d) = ?names"
    by (elim conjE)
  have "\<exists>d. ?run = Some (Inr d) \<and> map specialist_name (specialist_reports d) = ?names"
    using 1 2 by (intro exI[of _ d] conjI)
  with n a b show ?thesis
    by (intro conjI)
qed

text \<open>
  C2, as amended. For a non-empty list of registered names and any order in which the
  workers run, \<open>run_diagnosis\<close> returns whatever the remote port does to any worker,
  and the entry at each position \<open>i\<close> depends on the port's answer to that worker's own
  call alone: the words \<open>Error: Could not generate report.\<close> and the cause when the
  call (or the joining of its content) fails, the sanitized response text when it
  succeeds. The entry is the requested name together with that text.
\<close>

theorem worker_failure_is_contained:
  assumes "specialists \<noteq> []"
    and "set specialists \<subseteq> set AVAILABLE_SPECIALISTS"
    and "is_schedule (length specialists) order"
    and "i < length specialists"
  shows "\<exists>d. fst (run_diagnosis remote medical_report specialists order calls) = Some (Inr d)
           \<and> length (specialist_reports d) = length specialists
           \<and> specialist_reports d ! i =
               \<lparr>specialist_name = specialists ! i,
                report_content =
                  (case response_text
                          (remote (calls @ calls_before medical_report specialists order i)
                             (worker_call medical_report specialists i)) of
                     Inl cause \<Rightarrow> asc ''Error: Could not generate report. '' @ cause
                   | Inr t \<Rightarrow> sanitize_text t)\<rparr>"
proof -
  let ?rs = "worker_reports remote medical_report specialists order calls"
  have "?rs ! i =
      \<lparr>specialist_name = specialists ! i,
       report_content =
         (case response_text
                 (remote (calls @ calls_before medical_report specialists order i)
                    (worker_call medical_report specialists i)) of
            Inl cause \<Rightarrow> asc ''Error: Could not generate report. '' @ cause
          | Inr t \<Rightarrow> sanitize_text t)\<rparr>"
    using assms(4) by (simp add: worker_reports_nth worker_report_def report_text_def)
  then show ?thesis
    by (simp add: run_diagnosis_known[OF assms(1-3)] Let_def length_worker_reports)
qed

theorem worker_failure_is_contained_witness:
  "[asc ''Cardiologist'', asc ''Oncologist''] \<noteq> []
   \<and> set [asc ''Cardiologist'', asc ''Oncologist''] \<subseteq> set AVAILABLE_SPECIALISTS
   \<and> is_schedule 2 [1, 0]
   \<and> (\<exists>d. fst (run_diagnosis (scripted [Inr (Str (asc ''no mass'')), Inl (asc ''timeout'')])
               (asc ''chest pain'') [asc ''Cardiologist'', asc ''Oncologist''] [1, 0] []) =
             Some (Inr d)
         \<and> specialist_reports d ! 0 =
             \<lparr>specialist_name = asc ''Cardiologist'',
              report_content = asc ''Error: Could not generate report. '' @ asc ''timeout''\<rparr>
         \<and> specialist_reports d ! 1 =
             \<lparr>specialist_name = asc ''Oncologist'', report_content = asc ''no mass''\<rparr>)"
proof -
  let ?names = "[asc ''Cardiologist'', asc ''Oncologist'']"
  let ?remote = "scripted [Inr (Str (asc ''no mass'')), Inl (asc ''timeout'')]"
  let ?run = "fst (run_diagnosis ?remote (asc ''chest pain'') ?names [1, 0] [])"
  have n: "?names \<noteq> []"
    by simp
  have a: "set ?names \<subseteq> set AVAILABLE_SPECIALISTS"
    by (simp add: AVAILABLE_SPECIALISTS_eq)
  have b: "is_schedule 2 [1, 0]"
    by (auto simp: is_schedule_def)
  have b': "is_schedule (length ?names) [1, 0]"
    by (auto simp: is_schedule_def)
  have s: "sanitize_text (asc ''no mass'') = asc ''no mass''"
    by (rule sanitize_text_ascii) (simp add: asc_def)
  have r0: "(case response_text
                 (?remote ([] @ calls_before (asc ''chest pain'') ?names [1, 0] 0)
                    (worker_call (asc ''chest pain'') ?names 0)) of
              Inl cause \<Rightarrow> asc ''Error: Could not generate report. '' @ cause
            | Inr t \<Rightarrow> sanitize_text t) =
            asc ''Error: Could not generate report. '' @ asc ''timeout''"
    by (simp add: scripted_def calls_before_def response_text_def)
  have r1: "(case response_text
                 (?remote ([] @ calls_before (asc ''chest pain'') ?names [1, 0] 1)
                    (worker_call (asc ''chest pain'') ?names 1)) of
              Inl cause \<Rightarrow> asc ''Error: Could not generate report. '' @ cause
            | Inr t \<Rightarrow> sanitize_text t) =
            asc ''no mass''"
    by (simp add: scripted_def calls_before_def response_text_def content_text_def s)
  from worker_failure_is_contained[OF n a b', of 0 ?remote "asc ''chest pain''" "[]"]
  obtain d where d: "?run = Some (Inr d)"
    and d0: "specialist_reports d ! 0 =
             \<lparr>specialist_name = asc ''Cardiologist'',
              report_content = asc ''Error: Could not generate report. '' @ asc ''timeout''\<rparr>"
    unfolding r0 by auto
  from worker_failure_is_contained[OF n a b', of 1 ?remote "asc ''chest pain''" "[]"]
  obtain d' where d': "?run = Some (Inr d')"
    and d1: "specialist_reports d' ! 1 =
             \<lparr>specialist_name = asc ''Oncologist'', report_content = asc ''no mass''\<rparr>"
    unfolding r1 by auto
  from d d' have "d' = d"
    by simp
  with d d0 d1 have "\<exists>d. ?run = Some (Inr d)
         \<and> specialist_reports d ! 0 =
             \<lparr>specialist_name = asc ''Cardiologist'',
              report_content = asc ''Error: Could not generate report. '' @ asc ''timeout''\<rparr>
         \<and> specialist_reports d ! 1 =
             \<lparr>specialist_name = asc ''Oncologist'', report_content = asc ''no mass''\<rparr>"
    by (intro exI[of _ d] conjI) simp_all
  with n a b show ?thesis
    by (intro conjI)
qed

text \<open>
  The claim as stated has the failed entry flagged as failed. A worker whose call fails
  with cause \<open>timeout\<close> and a worker whose call succeeds with the text
  \<open>Error: Could not generate report. timeout\<close> leave the same entry, and the two runs
  the same result: nothing in an entry tells a failure from an output.
\<close>

theorem failed_entry_not_flagged_counterexample:
  "fst (run_diagnosis
          (scripted [Inl (asc ''timeout''), Inr (Str (asc ''no mass'')), Inr (Str (asc ''benign''))])
          (asc ''chest pain'') [asc ''Cardiologist'', asc ''Oncologist''] [0, 1] []) =
   fst (run_diagnosis
          (scripted [Inr (Str (asc ''Error: Could not generate report. timeout'')),
                     Inr (Str (asc ''no mass'')), Inr (Str (asc ''benign''))])
          (asc ''chest pain'') [asc ''Cardiologist'', asc ''Oncologist''] [0, 1] [])"
proof -
  let ?names = "[asc ''Cardiologist'', asc ''Oncologist'']"
  let ?failing = "scripted [Inl (asc ''timeout''), Inr (Str (asc ''no mass'')), Inr (Str (asc ''benign''))]"
  let ?succeeding = "scripted [Inr (Str (asc ''Error: Could not generate report. timeout'')),
                     Inr (Str (asc ''no mass'')), Inr (Str (asc ''benign''))]"
  have n: "?names \<noteq> []"
    by simp
  have a: "set ?names \<subseteq> set AVAILABLE_SPECIALISTS"
    by (simp add: AVAILABLE_SPECIALISTS_eq)
  have b: "is_schedule (length ?names) [0, 1]"
    by (auto simp: is_schedule_def)
  have s: "sanitize_text (asc ''Error: Could not generate report. timeout'') =
           asc ''Error: Could not generate report. '' @ asc ''timeout''"
    by (subst sanitize_text_ascii) (simp_all add: asc_def)
  have up: "[0..<length ?names] = [0, 1]"
    by (simp add: upt_rec)
  have rs: "worker_reports ?failing (asc ''chest pain'') ?names [0, 1] [] =
            worker_reports ?succeeding (asc ''chest pain'') ?names [0, 1] []"
    unfolding worker_reports_def up
    by (simp add: worker_report_def calls_before_def scripted_def response_text_def
        content_text_def report_text_def s)
  have fin: "fst (run_team_diagnosis ?failing rs ([] @ map (worker_call (asc ''chest pain'') ?names) [0, 1])) =
             fst (run_team_diagnosis ?succeeding rs ([] @ map (worker_call (asc ''chest pain'') ?names) [0, 1]))" for rs
    by (simp add: run_team_diagnosis_eq scripted_def)
  show ?thesis
    unfolding run_diagnosis_known[OF n a b] Let_def fst_conv rs fin ..
qed

text \<open>
  C3. For a non-empty list of registered names and any order of the workers: if the
  one synthesis call fails with a cause, \<open>run_diagnosis\<close> still returns; its
  \<open>final_diagnosis\<close> is \<open>Error generating final diagnosis:\<close> and the cause, and its
  \<open>specialist_reports\<close> are the workers' entries, one per requested name in the
  requested order. Those entries do not depend on the synthesis call: a port that
  answers the workers' calls in the same way yields the same entries whatever it does
  afterwards.
\<close>

theorem synthesis_failure_keeps_reports:
  assumes "specialists \<noteq> []"
    and "set specialists \<subseteq> set AVAILABLE_SPECIALISTS"
    and "is_schedule (length specialists) order"
    and "response_text
           (remote (calls @ map (worker_call medical_report specialists) order)
              (get_model,
               team_prompt (worker_reports remote medical_report specialists order calls))) =
         Inl cause"
  shows "fst (run_diagnosis remote medical_report specialists order calls) =
           Some (Inr \<lparr>specialist_reports =
                        worker_reports remote medical_report specialists order calls,
                      final_diagnosis = asc ''Error generating final diagnosis: '' @ cause\<rparr>)
       \<and> map specialist_name (worker_reports remote medical_report specialists order calls) =
           specialists
       \<and> (\<forall>remote'.
             (\<forall>h c. length h < length calls + length specialists \<longrightarrow> remote' h c = remote h c) \<longrightarrow>
             (\<exists>d. fst (run_diagnosis remote' medical_report specialists order calls) = Some (Inr d)
                  \<and> specialist_reports d =
                      worker_reports remote medical_report specialists order calls))"
proof -
  have 1: "fst (run_diagnosis remote medical_report specialists order calls) =
           Some (Inr \<lparr>specialist_reports =
                        worker_reports remote medical_report specialists order calls,
                      final_diagnosis = asc ''Error generating final diagnosis: '' @ cause\<rparr>)"
    using assms(4)
    by (simp add: run_diagnosis_known[OF assms(1-3)] Let_def run_team_diagnosis_eq)
  have 2: "\<exists>d. fst (run_diagnosis remote' medical_report specialists order calls) = Some (Inr d)
                  \<and> specialist_reports d =
                      worker_reports remote medical_report specialists order calls"
    if "\<forall>h c. length h < length calls + length specialists \<longrightarrow> remote' h c = remote h c"
    for remote'
    using worker_reports_cong[OF assms(3) that]
    by (simp add: run_diagnosis_known[OF assms(1-3)] Let_def)
  show ?thesis
    using 1 2 worker_reports_names by blast
qed

theorem synthesis_failure_keeps_reports_witness:
  "[asc ''Cardiologist'', asc ''Oncologist''] \<noteq> []
   \<and> set [asc ''Cardiologist'', asc ''Oncologist''] \<subseteq> set AVAILABLE_SPECIALISTS
   \<and> is_schedule 2 [1, 0]
   \<and> fst (run_diagnosis (scripted [Inr (Str (asc ''no mass'')), Inr (Str (asc ''sinus rhythm''))])
            (asc ''chest pain'') [asc ''Cardiologist'', asc ''Oncologist''] [1, 0] []) =
       Some (Inr \<lparr>specialist_reports =
                    [\<lparr>specialist_name = asc ''Cardiologist'', report_content = asc ''sinus rhythm''\<rparr>,
                     \<lparr>specialist_name = asc ''Oncologist'', report_content = asc ''no mass''\<rparr>],
                  final_diagnosis =
                    asc ''Error generating final diagnosis: '' @ asc ''Connection error.''\<rparr>)"
proof -
  let ?names = "[asc ''Cardiologist'', asc ''Oncologist'']"
  let ?remote = "scripted [Inr (Str (asc ''no mass'')), Inr (Str (asc ''sinus rhythm''))]"
  have n: "?names \<noteq> []"
    by simp
  have a: "set ?names \<subseteq> set AVAILABLE_SPECIALISTS"
    by (simp add: AVAILABLE_SPECIALISTS_eq)
  have b: "is_schedule 2 [1, 0]"
    by (auto simp: is_schedule_def)
  have b': "is_schedule (length ?names) [1, 0]"
    by (auto simp: is_schedule_def)
  have s: "sanitize_text (asc ''no mass'') = asc ''no mass''"
    "sanitize_text (asc ''sinus rhythm'') = asc ''sinus rhythm''"
    by (rule sanitize_text_ascii, simp add: asc_def)+
  have up: "[0..<length ?names] = [0, 1]"
    by (simp add: upt_rec)
  have rs: "worker_reports ?remote (asc ''chest pain'') ?names [1, 0] [] =
            [\<lparr>specialist_name = asc ''Cardiologist'', report_content = asc ''sinus rhythm''\<rparr>,
             \<lparr>specialist_name = asc ''Oncologist'', report_content = asc ''no mass''\<rparr>]"
    unfolding worker_reports_def up
    by (simp add: worker_report_def calls_before_def scripted_def response_text_def
        content_text_def report_text_def s)
  have f: "response_text
           (?remote ([] @ map (worker_call (asc ''chest pain'') ?names) [1, 0])
              (get_model, team_prompt (worker_reports ?remote (asc ''chest pain'') ?names [1, 0] []))) =
         Inl (asc ''Connection error.'')"
    by (simp add: scripted_def response_text_def)
  have "fst (run_diagnosis ?remote (asc ''chest pain'') ?names [1, 0] []) =
       Some (Inr \<lparr>specialist_reports = worker_reports ?remote (asc ''chest pain'') ?names [1, 0] [],
                  final_diagnosis =
                    asc ''Error generating final diagnosis: '' @ asc ''Connection error.''\<rparr>)"
    using synthesis_failure_keeps_reports[where specialists = ?names and order = "[1, 0]"
        and remote = ?remote and calls = "[]" and medical_report = "asc ''chest pain''"
        and cause = "asc ''Connection error.''", OF n a b' f]
    by (elim conjE)
  then have "fst (run_diagnosis ?remote (asc ''chest pain'') ?names [1, 0] []) =
       Some (Inr \<lparr>specialist_reports =
                    [\<lparr>specialist_name = asc ''Cardiologist'', report_content = asc ''sinus rhythm''\<rparr>,
                     \<lparr>specialist_name = asc ''Oncologist'', report_content = asc ''no mass''\<rparr>],
                  final_diagnosis =
                    asc ''Error generating final diagnosis: '' @ asc ''Connection error.''\<rparr>)"
    unfolding rs .
  with n a b show ?thesis
    by (intro conjI)
qed

text \<open>
  C4. Under any order of the workers, \<open>run_diagnosis\<close> returns, and it returns an
  error exactly when the requested list is empty or holds a name that is not in the
  registry. The route validates the names before it calls \<open>run_diagnosis\<close>: a request
  naming an unknown analyzer is answered with the 400 rejection listing the unknown names,
  and no call to the remote port has been made by then. That rejection is the only error
  the route returns; a request without a list is served by the names the selector gives.
\<close>

theorem unknown_names_rejected_before_any_call:
  assumes "\<forall>n. is_schedule n (scheduler n)"
    and "is_schedule (length specialists) order"
  shows "fst (run_diagnosis remote medical_report specialists order calls) \<noteq> None
       \<and> ((\<exists>e. fst (run_diagnosis remote medical_report specialists order calls) = Some (Inl e))
            \<longleftrightarrow> specialists = [] \<or> \<not> set specialists \<subseteq> set AVAILABLE_SPECIALISTS)
       \<and> (\<forall>names. \<not> set names \<subseteq> set AVAILABLE_SPECIALISTS \<longrightarrow>
             run_diagnosis_endpoint remote json_loads scheduler medical_report (Some names) calls =
               (Some (Inl (HTTPException 400
                  (filter (\<lambda>s. s \<notin> set AVAILABLE_SPECIALISTS) names))), calls))
       \<and> fst (run_diagnosis_endpoint remote json_loads scheduler medical_report selected calls)
            \<noteq> None
       \<and> (\<forall>e. fst (run_diagnosis_endpoint remote json_loads scheduler medical_report selected calls) =
                 Some (Inl e) \<longrightarrow>
               (\<exists>names. selected = Some names \<and> \<not> set names \<subseteq> set AVAILABLE_SPECIALISTS
                  \<and> e = HTTPException 400
                          (filter (\<lambda>s. s \<notin> set AVAILABLE_SPECIALISTS) names)))"
proof -
  note d = run_diagnosis_cases[OF assms(2), of remote medical_report calls]
  note e = run_diagnosis_endpoint_cases[OF assms(1), of remote json_loads medical_report selected calls]
  have 3: "\<forall>names. \<not> set names \<subseteq> set AVAILABLE_SPECIALISTS \<longrightarrow>
             run_diagnosis_endpoint remote json_loads scheduler medical_report (Some names) calls =
               (Some (Inl (HTTPException 400
                  (filter (\<lambda>s. s \<notin> set AVAILABLE_SPECIALISTS) names))), calls)"
    by (simp add: run_diagnosis_endpoint_unknown)
  have 4: "fst (run_diagnosis_endpoint remote json_loads scheduler medical_report selected calls)
            \<noteq> None"
    using e by auto
  have 5: "\<forall>e. fst (run_diagnosis_endpoint remote json_loads scheduler medical_report selected calls) =
                 Some (Inl e) \<longrightarrow>
               (\<exists>names. selected = Some names \<and> \<not> set names \<subseteq> set AVAILABLE_SPECIALISTS
                  \<and> e = HTTPException 400
                          (filter (\<lambda>s. s \<notin> set AVAILABLE_SPECIALISTS) names))"
    using e by auto
  show ?thesis
    using d 3 4 5 by (intro conjI) (elim conjE, assumption)+
qed

theorem unknown_names_rejected_before_any_call_witness:
  "(\<forall>n. is_schedule n (backwards n))
   \<and> is_schedule 2 [1, 0]
   \<and> (\<exists>e. fst (run_diagnosis (scripted []) (asc ''chest pain'')
               [asc ''Cardiologist'', asc ''Quack''] [1, 0] []) = Some (Inl e))
   \<and> run_diagnosis_endpoint (scripted []) json_loads_examples backwards (asc ''chest pain'')
       (Some [asc ''Cardiologist'', asc ''Quack'']) [] =
       (Some (Inl (HTTPException 400 [asc ''Quack''])), [])"
proof -
  let ?names = "[asc ''Cardiologist'', asc ''Quack'']"
  have s: "\<forall>n. is_schedule n (backwards n)"
    by (simp add: is_schedule_backwards)
  have b: "is_schedule 2 [1, 0]"
    by (auto simp: is_schedule_def)
  have b': "is_schedule (length ?names) [1, 0]"
    by (auto simp: is_schedule_def)
  have q: "asc ''Quack'' \<notin> set AVAILABLE_SPECIALISTS"
    by (simp add: AVAILABLE_SPECIALISTS_eq asc_eq_iff)
  then have u: "\<not> set ?names \<subseteq> set AVAILABLE_SPECIALISTS"
    by simp
  have f: "filter (\<lambda>s. s \<notin> set AVAILABLE_SPECIALISTS) ?names = [asc ''Quack'']"
    using q by (simp add: AVAILABLE_SPECIALISTS_eq)
  note t = unknown_names_rejected_before_any_call[OF s b',
      where remote = "scripted []" and medical_report = "asc ''chest pain''" and calls = "[]"
        and json_loads = json_loads_examples and selected = None]
  have u': "?names = [] \<or> \<not> set ?names \<subseteq> set AVAILABLE_SPECIALISTS"
    using u by (rule disjI2)
  from t have "(\<exists>e. fst (run_diagnosis (scripted []) (asc ''chest pain'') ?names [1, 0] []) =
                   Some (Inl e))
        \<longleftrightarrow> ?names = [] \<or> \<not> set ?names \<subseteq> set AVAILABLE_SPECIALISTS"
    by (elim conjE)
  from this u' have 1: "\<exists>e. fst (run_diagnosis (scripted []) (asc ''chest pain'') ?names [1, 0] []) =
                   Some (Inl e)"
    by (rule iffD2)
  from t have "\<forall>names. \<not> set names \<subseteq> set AVAILABLE_SPECIALISTS \<longrightarrow>
             run_diagnosis_endpoint (scripted []) json_loads_examples backwards (asc ''chest pain'')
               (Some names) [] =
               (Some (Inl (HTTPException 400
                  (filter (\<lambda>s. s \<notin> set AVAILABLE_SPECIALISTS) names))), [])"
    by (elim conjE)
  then have "\<not> set ?names \<subseteq> set AVAILABLE_SPECIALISTS \<longrightarrow>
             run_diagnosis_endpoint (scripted []) json_loads_examples backwards (asc ''chest pain'')
               (Some ?names) [] =
               (Some (Inl (HTTPException 400
                  (filter (\<lambda>s. s \<notin> set AVAILABLE_SPECIALISTS) ?names))), [])"
    by (rule spec)
  from this u have 2: "run_diagnosis_endpoint (scripted []) json_loads_examples backwards (asc ''chest pain'')
               (Some ?names) [] =
               (Some (Inl (HTTPException 400 [asc ''Quack''])), [])"
    unfolding f by (rule mp)
  from s b 1 2 show ?thesis
    by (intro conjI)
qed

text \<open>
  C5. \<open>_run_team_diagnosis\<close> makes exactly one call to the remote port. Its directive is
  the team template with, in place of the placeholder, one block per given report in the
  order given: a newline, the analyzer's name, \<open>Report:\<close>, and the report text with every
  \<open>{\<close> doubled and every \<open>}\<close> doubled. Within \<open>run_diagnosis\<close> on registered names the
  reports given are the workers' entries, whose names are the requested names in the
  requested order, and that call is the one call made after the workers' calls.
\<close>

theorem team_directive_embeds_reports_in_order:
  assumes "specialists \<noteq> []"
    and "set specialists \<subseteq> set AVAILABLE_SPECIALISTS"
    and "is_schedule (length specialists) order"
  shows "snd (run_team_diagnosis remote rs calls) =
           calls @
           [(get_model,
             TEAM_PROMPT_head @
             concat (map (\<lambda>r. asc ''\<newline>'' @ specialist_name r @ asc '' Report:\<newline>'' @
                               concat (map (\<lambda>c. if c = 123 then [123, 123]
                                                  else if c = 125 then [125, 125] else [c])
                                         (report_content r)) @
                               asc ''\<newline>'') rs) @
             TEAM_PROMPT_tail)]
       \<and> snd (run_diagnosis remote medical_report specialists order calls) =
           snd (run_team_diagnosis remote
                  (worker_reports remote medical_report specialists order calls)
                  (calls @ map (worker_call medical_report specialists) order))
       \<and> map specialist_name (worker_reports remote medical_report specialists order calls) =
           specialists"
proof -
  have "snd (run_team_diagnosis remote rs calls) = calls @ [(get_model, team_prompt rs)]"
    by (simp add: run_team_diagnosis_eq)
  moreover have "snd (run_diagnosis remote medical_report specialists order calls) =
           snd (run_team_diagnosis remote
                  (worker_reports remote medical_report specialists order calls)
                  (calls @ map (worker_call medical_report specialists) order))"
    by (simp add: run_diagnosis_known[OF assms] Let_def run_team_diagnosis_eq)
  ultimately show ?thesis
    by (simp add: team_prompt_eq reports_section_eq escape_braces_eq worker_reports_names)
qed

theorem team_directive_embeds_reports_in_order_witness:
  "[asc ''Oncologist'', asc ''Cardiologist''] \<noteq> []
   \<and> set [asc ''Oncologist'', asc ''Cardiologist''] \<subseteq> set AVAILABLE_SPECIALISTS
   \<and> is_schedule 2 [1, 0]
   \<and> snd (run_team_diagnosis (scripted [])
            [\<lparr>specialist_name = asc ''Oncologist'', report_content = asc ''a {b} c''\<rparr>,
             \<lparr>specialist_name = asc ''Cardiologist'', report_content = asc ''}''\<rparr>] []) =
       [(get_model,
         TEAM_PROMPT_head @
         asc ''\<newline>Oncologist Report:\<newline>a {{b}} c\<newline>\<newline>Cardiologist Report:\<newline>}}\<newline>'' @
         TEAM_PROMPT_tail)]"
proof -
  let ?names = "[asc ''Oncologist'', asc ''Cardiologist'']"
  let ?rs = "[\<lparr>specialist_name = asc ''Oncologist'', report_content = asc ''a {b} c''\<rparr>,
             \<lparr>specialist_name = asc ''Cardiologist'', report_content = asc ''}''\<rparr>]"
  have n: "?names \<noteq> []"
    by simp
  have a: "set ?names \<subseteq> set AVAILABLE_SPECIALISTS"
    by (simp add: AVAILABLE_SPECIALISTS_eq)
  have b: "is_schedule 2 [1, 0]"
    by (auto simp: is_schedule_def)
  have b': "is_schedule (length ?names) [1, 0]"
    by (auto simp: is_schedule_def)
  have c: "concat (map (\<lambda>r. asc ''\<newline>'' @ specialist_name r @ asc '' Report:\<newline>'' @
                               concat (map (\<lambda>c. if c = 123 then [123, 123]
                                                  else if c = 125 then [125, 125] else [c])
                                         (report_content r)) @
                               asc ''\<newline>'') ?rs) =
           asc ''\<newline>Oncologist Report:\<newline>a {{b}} c\<newline>\<newline>Cardiologist Report:\<newline>}}\<newline>''"
    by (simp add: asc_def)
  note t = team_directive_embeds_reports_in_order[OF n a b',
      where remote = "scripted []" and rs = ?rs and calls = "[]"
        and medical_report = "asc ''chest pain''"]
  from t have "snd (run_team_diagnosis (scripted []) ?rs []) =
       [] @ [(get_model,
         TEAM_PROMPT_head @
         concat (map (\<lambda>r. asc ''\<newline>'' @ specialist_name r @ asc '' Report:\<newline>'' @
                               concat (map (\<lambda>c. if c = 123 then [123, 123]
                                                  else if c = 125 then [125, 125] else [c])
                                         (report_content r)) @
                               asc ''\<newline>'') ?rs) @
         TEAM_PROMPT_tail)]"
    by (elim conjE)
  then have "snd (run_team_diagnosis (scripted []) ?rs []) =
       [(get_model,
         TEAM_PROMPT_head @
         asc ''\<newline>Oncologist Report:\<newline>a {{b}} c\<newline>\<newline>Cardiologist Report:\<newline>}}\<newline>'' @
         TEAM_PROMPT_tail)]"
    unfolding c append_Nil .
  with n a b show ?thesis
    by (intro conjI)
qed

text \<open>
  C6. When the remote call succeeds and the response parses as a list of names,
  \<open>auto_select_specialists\<close> returns the names that are in the registry, in the order
  given, followed by \<open>General Practitioner\<close> if fewer than two remained and it was not
  among them, and cut to the first five. So the parsed list with the one name
  \<open>Cardiologist\<close> gives \<open>Cardiologist\<close> and \<open>General Practitioner\<close>, and seven
  registered names give the first five of them.
\<close>

theorem selector_post_processing:
  assumes "response_text (remote calls (selector_model, selector_prompt medical_report)) = Inr t"
    and "json_loads (strip_fences t) = Inr (JArr (map JStr names))"
  shows "fst (auto_select_specialists remote json_loads medical_report calls) =
           take 5 (let valid = filter (\<lambda>s. s \<in> set AVAILABLE_SPECIALISTS) names
                   in if length valid < 2 \<and> asc ''General Practitioner'' \<notin> set valid
                      then valid @ [asc ''General Practitioner''] else valid)
       \<and> (names = [asc ''Cardiologist''] \<longrightarrow>
            fst (auto_select_specialists remote json_loads medical_report calls) =
              [asc ''Cardiologist'', asc ''General Practitioner''])
       \<and> (length names = 7 \<and> set names \<subseteq> set AVAILABLE_SPECIALISTS \<longrightarrow>
            fst (auto_select_specialists remote json_loads medical_report calls) = take 5 names)"
proof -
  let ?v = "filter (\<lambda>s. s \<in> set AVAILABLE_SPECIALISTS) names"
  let ?res = "take 5 (let valid = ?v
                   in if length valid < 2 \<and> asc ''General Practitioner'' \<notin> set valid
                      then valid @ [asc ''General Practitioner''] else valid)"
  have 1: "fst (auto_select_specialists remote json_loads medical_report calls) = ?res"
    by (simp add: auto_select_specialists_eq assms select_valid_names)
  have 2: "?res = [asc ''Cardiologist'', asc ''General Practitioner'']"
    if "names = [asc ''Cardiologist'']"
    unfolding that by (simp add: AVAILABLE_SPECIALISTS_eq asc_eq_iff)
  have 3: "?res = take 5 names" if "length names = 7 \<and> set names \<subseteq> set AVAILABLE_SPECIALISTS"
  proof -
    have "?v = names"
      using that by (auto simp: filter_id_conv)
    then show ?thesis
      using that by (simp add: Let_def)
  qed
  show ?thesis
  proof (intro conjI impI)
    show "fst (auto_select_specialists remote json_loads medical_report calls) = ?res"
      by (rule 1)
    show "fst (auto_select_specialists remote json_loads medical_report calls) =
            [asc ''Cardiologist'', asc ''General Practitioner'']"
      if "names = [asc ''Cardiologist'']"
      using 1 2[OF that] by (rule trans)
    show "fst (auto_select_specialists remote json_loads medical_report calls) = take 5 names"
      if "length names = 7 \<and> set names \<subseteq> set AVAILABLE_SPECIALISTS"
      using 1 3[OF that] by (rule trans)
  qed
qed

theorem selector_post_processing_witness:
  \<open>response_text
     (scripted [Inr (Str (asc ''```json\<newline>["Cardiologist"]\<newline>```''))] []
        (selector_model, selector_prompt (asc ''chest pain''))) =
     Inr (asc ''```json\<newline>["Cardiologist"]\<newline>```'')
   \<and> json_loads_examples (strip_fences (asc ''```json\<newline>["Cardiologist"]\<newline>```'')) =
       Inr (JArr (map JStr [asc ''Cardiologist'']))
   \<and> fst (auto_select_specialists
            (scripted [Inr (Str (asc ''```json\<newline>["Cardiologist"]\<newline>```''))])
            json_loads_examples (asc ''chest pain'') []) =
       [asc ''Cardiologist'', asc ''General Practitioner'']
   \<and> fst (auto_select_specialists
            (scripted [Inr (Str (asc '' ["Oncologist", "Neurologist", "Cardiologist", "Orthopedist", "Psychologist", "Dermatologist", "Pulmonologist"]\<newline>''))])
            json_loads_examples (asc ''chest pain'') []) =
       [asc ''Oncologist'', asc ''Neurologist'', asc ''Cardiologist'', asc ''Orthopedist'',
        asc ''Psychologist'']\<close>
proof -
  let ?t1 = \<open>asc ''```json\<newline>["Cardiologist"]\<newline>```''\<close>
  let ?t2 = \<open>asc '' ["Oncologist", "Neurologist", "Cardiologist", "Orthopedist", "Psychologist", "Dermatologist", "Pulmonologist"]\<newline>''\<close>
  let ?seven = "[asc ''Oncologist'', asc ''Neurologist'', asc ''Cardiologist'', asc ''Orthopedist'',
        asc ''Psychologist'', asc ''Dermatologist'', asc ''Pulmonologist'']"
  have r1: "response_text (scripted [Inr (Str ?t1)] [] (selector_model, selector_prompt (asc ''chest pain''))) = Inr ?t1"
    by (simp add: scripted_def response_text_def content_text_def)
  have r2: "response_text (scripted [Inr (Str ?t2)] [] (selector_model, selector_prompt (asc ''chest pain''))) = Inr ?t2"
    by (simp add: scripted_def response_text_def content_text_def)
  have s1: \<open>strip_fences ?t1 = asc ''["Cardiologist"]''\<close>
    by (simp add: strip_fences_def strip_def isspace_def startswith_def split_newline_last_def
        rsplit_first_def asc_def)
  have s2: \<open>strip_fences ?t2 = asc ''["Oncologist", "Neurologist", "Cardiologist", "Orthopedist", "Psychologist", "Dermatologist", "Pulmonologist"]''\<close>
    by (simp add: strip_fences_def strip_def isspace_def startswith_def asc_def)
  have j1: "json_loads_examples (strip_fences ?t1) = Inr (JArr (map JStr [asc ''Cardiologist'']))"
    unfolding s1 by (simp add: json_loads_examples_def asc_eq_iff)
  have j2: "json_loads_examples (strip_fences ?t2) = Inr (JArr (map JStr ?seven))"
    unfolding s2 by (simp add: json_loads_examples_def asc_eq_iff)
  have k: "length ?seven = 7 \<and> set ?seven \<subseteq> set AVAILABLE_SPECIALISTS"
    by (simp add: AVAILABLE_SPECIALISTS_eq)
  have t5: "take 5 ?seven = [asc ''Oncologist'', asc ''Neurologist'', asc ''Cardiologist'',
        asc ''Orthopedist'', asc ''Psychologist'']"
    by simp
  from selector_post_processing[where remote = "scripted [Inr (Str ?t1)]" and calls = "[]"
      and medical_report = "asc ''chest pain''" and t = ?t1 and json_loads = json_loads_examples
      and names = "[asc ''Cardiologist'']", OF r1 j1]
  have "[asc ''Cardiologist''] = [asc ''Cardiologist''] \<longrightarrow>
        fst (auto_select_specialists (scripted [Inr (Str ?t1)]) json_loads_examples (asc ''chest pain'') []) =
          [asc ''Cardiologist'', asc ''General Practitioner'']"
    by (elim conjE)
  then have 1: "fst (auto_select_specialists (scripted [Inr (Str ?t1)]) json_loads_examples (asc ''chest pain'') []) =
          [asc ''Cardiologist'', asc ''General Practitioner'']"
    by (rule mp) (rule refl)
  from selector_post_processing[where remote = "scripted [Inr (Str ?t2)]" and calls = "[]"
      and medical_report = "asc ''chest pain''" and t = ?t2 and json_loads = json_loads_examples
      and names = ?seven, OF r2 j2]
  have "length ?seven = 7 \<and> set ?seven \<subseteq> set AVAILABLE_SPECIALISTS \<longrightarrow>
        fst (auto_select_specialists (scripted [Inr (Str ?t2)]) json_loads_examples (asc ''chest pain'') []) =
          take 5 ?seven"
    by (elim conjE)
  from this k have "fst (auto_select_specialists (scripted [Inr (Str ?t2)]) json_loads_examples (asc ''chest pain'') []) =
          take 5 ?seven"
    by (rule mp)
  then have 2: "fst (auto_select_specialists (scripted [Inr (Str ?t2)]) json_loads_examples (asc ''chest pain'') []) =
          [asc ''Oncologist'', asc ''Neurologist'', asc ''Cardiologist'',
        asc ''Orthopedist'', asc ''Psychologist'']"
    unfolding t5 .
  from r1 j1 1 2 show ?thesis
    by (intro conjI)
qed

text \<open>
  C7, as amended. For every report text, every remote port and every result of
  \<open>json.loads\<close>, the list that \<open>auto_select_specialists\<close> returns is not empty, has at
  most five names, and every name in it is in the registry.
\<close>

theorem selection_nonempty_registered_at_most_five:
  "fst (auto_select_specialists remote json_loads medical_report calls) \<noteq> []
   \<and> length (fst (auto_select_specialists remote json_loads medical_report calls)) \<le> 5
   \<and> set (fst (auto_select_specialists remote json_loads medical_report calls))
       \<subseteq> set AVAILABLE_SPECIALISTS"
  by (rule auto_select_specialists_result)

theorem selection_nonempty_registered_at_most_five_witness:
  \<open>fst (auto_select_specialists (scripted [Inr (Str (asc ''["Cardiologist"]''))])
          json_loads_examples (asc ''chest pain'') []) \<noteq> []
   \<and> length (fst (auto_select_specialists (scripted [Inr (Str (asc ''["Cardiologist"]''))])
                  json_loads_examples (asc ''chest pain'') [])) \<le> 5
   \<and> set (fst (auto_select_specialists (scripted [Inr (Str (asc ''["Cardiologist"]''))])
               json_loads_examples (asc ''chest pain'') []))
       \<subseteq> set AVAILABLE_SPECIALISTS\<close>
  by (rule selection_nonempty_registered_at_most_five)

text \<open>
  The claim as stated has at least two names, all distinct. A response that is the empty
  JSON list gives the single name \<open>General Practitioner\<close>, and a response that names
  \<open>Cardiologist\<close> twice gives it twice.
\<close>

theorem selection_short_or_repeated_counterexample:
  \<open>fst (auto_select_specialists (scripted [Inr (Str (asc ''[]''))])
          json_loads_examples (asc ''chest pain'') []) =
     [asc ''General Practitioner'']
   \<and> fst (auto_select_specialists
            (scripted [Inr (Str (asc ''["Cardiologist", "Cardiologist"]''))])
            json_loads_examples (asc ''chest pain'') []) =
       [asc ''Cardiologist'', asc ''Cardiologist'']\<close>
proof -
  let ?t1 = \<open>asc ''[]''\<close>
  let ?t2 = \<open>asc ''["Cardiologist", "Cardiologist"]''\<close>
  have s: "strip_fences ?t1 = ?t1" "strip_fences ?t2 = ?t2"
    by (simp_all add: strip_fences_def strip_def isspace_def startswith_def asc_def)
  have j1: "json_loads_examples ?t1 = Inr (JArr (map JStr []))"
    by (simp add: json_loads_examples_def)
  have j2: "json_loads_examples ?t2 =
            Inr (JArr (map JStr [asc ''Cardiologist'', asc ''Cardiologist'']))"
    by (simp add: json_loads_examples_def asc_eq_iff)
  have 1: "fst (auto_select_specialists (scripted [Inr (Str ?t1)])
          json_loads_examples (asc ''chest pain'') []) = [asc ''General Practitioner'']"
    unfolding auto_select_specialists_eq fst_conv
    by (simp add: scripted_def response_text_def content_text_def s j1 select_valid_names
        del: list.map)
  have 2: "fst (auto_select_specialists (scripted [Inr (Str ?t2)])
          json_loads_examples (asc ''chest pain'') []) = [asc ''Cardiologist'', asc ''Cardiologist'']"
    unfolding auto_select_specialists_eq fst_conv
    by (simp add: scripted_def response_text_def content_text_def s j2 select_valid_names
        AVAILABLE_SPECIALISTS_eq asc_eq_iff del: list.map)
  from 1 2 show ?thesis
    by (intro conjI)
qed

text \<open>
  C8, as amended. \<open>auto_select_specialists\<close> returns a list in every case. It returns
  the fallback triple \<open>Cardiologist\<close>, \<open>Psychologist\<close>, \<open>Pulmonologist\<close> when the remote
  call fails or the response content cannot be joined, when \<open>json.loads\<close> raises on the
  response, and when the parsed value cannot be iterated (a number, a boolean or null).
  When the parsed value is a list, an object or a string, it does not fall back: of the
  list's elements that are strings, of the object's keys, or of the string's characters,
  it keeps those that are in the registry, in order, appends \<open>General Practitioner\<close> if
  fewer than two remained and it was not among them, and cuts to the first five.
\<close>

theorem selection_falls_back_on_failure:
  "(\<forall>e. response_text (remote calls (selector_model, selector_prompt medical_report)) = Inl e \<longrightarrow>
       fst (auto_select_specialists remote json_loads medical_report calls) = fallback)
   \<and> (\<forall>t e. response_text (remote calls (selector_model, selector_prompt medical_report)) = Inr t
            \<and> json_loads (strip_fences t) = Inl e \<longrightarrow>
       fst (auto_select_specialists remote json_loads medical_report calls) = fallback)
   \<and> (\<forall>t v. response_text (remote calls (selector_model, selector_prompt medical_report)) = Inr t
            \<and> json_loads (strip_fences t) = Inr v
            \<and> (v = JNull \<or> (\<exists>b. v = JBool b) \<or> (\<exists>i. v = JInt i) \<or> (\<exists>f. v = JFloat f)) \<longrightarrow>
       fst (auto_select_specialists remote json_loads medical_report calls) = fallback)
   \<and> (\<forall>t v names.
         response_text (remote calls (selector_model, selector_prompt medical_report)) = Inr t
         \<and> json_loads (strip_fences t) = Inr v
         \<and> ((\<exists>items. v = JArr items
                \<and> names = concat (map (\<lambda>x. case x of JStr s \<Rightarrow> [s] | _ \<Rightarrow> []) items))
            \<or> (\<exists>kvs. v = JObj kvs \<and> names = map fst kvs)
            \<or> (\<exists>s. v = JStr s \<and> names = map (\<lambda>c. [c]) s)) \<longrightarrow>
       fst (auto_select_specialists remote json_loads medical_report calls) =
         take 5 (let valid = filter (\<lambda>s. s \<in> set AVAILABLE_SPECIALISTS) names
                 in if length valid < 2 \<and> asc ''General Practitioner'' \<notin> set valid
                    then valid @ [asc ''General Practitioner''] else valid))
   \<and> fallback = [asc ''Cardiologist'', asc ''Psychologist'', asc ''Pulmonologist'']"
proof (intro conjI allI impI)
  fix e
  assume "response_text (remote calls (selector_model, selector_prompt medical_report)) = Inl e"
  then show "fst (auto_select_specialists remote json_loads medical_report calls) = fallback"
    by (simp add: auto_select_specialists_eq)
next
  fix t e
  assume "response_text (remote calls (selector_model, selector_prompt medical_report)) = Inr t
            \<and> json_loads (strip_fences t) = Inl e"
  then show "fst (auto_select_specialists remote json_loads medical_report calls) = fallback"
    by (simp add: auto_select_specialists_eq)
next
  fix t v
  assume a: "response_text (remote calls (selector_model, selector_prompt medical_report)) = Inr t
            \<and> json_loads (strip_fences t) = Inr v
            \<and> (v = JNull \<or> (\<exists>b. v = JBool b) \<or> (\<exists>i. v = JInt i) \<or> (\<exists>f. v = JFloat f))"
  then have "\<exists>e. select_valid v = Inl e"
    by (auto simp: select_valid_def)
  with a show "fst (auto_select_specialists remote json_loads medical_report calls) = fallback"
    by (auto simp: auto_select_specialists_eq)
next
  fix t v names
  assume a: "response_text (remote calls (selector_model, selector_prompt medical_report)) = Inr t
         \<and> json_loads (strip_fences t) = Inr v
         \<and> ((\<exists>items. v = JArr items
                \<and> names = concat (map (\<lambda>x. case x of JStr s \<Rightarrow> [s] | _ \<Rightarrow> []) items))
            \<or> (\<exists>kvs. v = JObj kvs \<and> names = map fst kvs)
            \<or> (\<exists>s. v = JStr s \<and> names = map (\<lambda>c. [c]) s))"
  from a have r: "response_text (remote calls (selector_model, selector_prompt medical_report)) = Inr t"
    by (rule conjunct1)
  from a have j: "json_loads (strip_fences t) = Inr v"
    by (rule conjunct2[THEN conjunct1])
  from a have c: "(\<exists>items. v = JArr items
                \<and> names = concat (map (\<lambda>x. case x of JStr s \<Rightarrow> [s] | _ \<Rightarrow> []) items))
            \<or> (\<exists>kvs. v = JObj kvs \<and> names = map fst kvs)
            \<or> (\<exists>s. v = JStr s \<and> names = map (\<lambda>c. [c]) s)"
    by (rule conjunct2[THEN conjunct2])
  show "fst (auto_select_specialists remote json_loads medical_report calls) =
         take 5 (let valid = filter (\<lambda>s. s \<in> set AVAILABLE_SPECIALISTS) names
                 in if length valid < 2 \<and> asc ''General Practitioner'' \<notin> set valid
                    then valid @ [asc ''General Practitioner''] else valid)"
    unfolding auto_select_specialists_eq fst_conv r j sum.case select_valid_candidates[OF c] ..
next
  show "fallback = [asc ''Cardiologist'', asc ''Psychologist'', asc ''Pulmonologist'']"
    by (rule fallback_def)
qed

theorem selection_falls_back_on_failure_witness:
  \<open>fst (auto_select_specialists (scripted [Inl (asc ''Request timed out.'')])
          json_loads_examples (asc ''chest pain'') []) =
     [asc ''Cardiologist'', asc ''Psychologist'', asc ''Pulmonologist'']
   \<and> fst (auto_select_specialists (scripted [Inr (Str (asc ''I cannot help with that''))])
            json_loads_examples (asc ''chest pain'') []) =
       [asc ''Cardiologist'', asc ''Psychologist'', asc ''Pulmonologist'']
   \<and> fst (auto_select_specialists (scripted [Inr (Str (asc ''7''))])
            json_loads_examples (asc ''chest pain'') []) =
       [asc ''Cardiologist'', asc ''Psychologist'', asc ''Pulmonologist'']
   \<and> fst (auto_select_specialists (scripted [Inr (Str (asc ''[1, "Oncologist"]''))])
            json_loads_examples (asc ''chest pain'') []) =
       [asc ''Oncologist'', asc ''General Practitioner'']
   \<and> fst (auto_select_specialists (scripted [Inr (Str (asc ''{"Cardiologist": 1}''))])
            json_loads_examples (asc ''chest pain'') []) =
       [asc ''Cardiologist'', asc ''General Practitioner'']
   \<and> fst (auto_select_specialists (scripted [Inr (Str (asc ''"ok"''))])
            json_loads_examples (asc ''chest pain'') []) =
       [asc ''General Practitioner'']\<close>
proof -
  let ?p = "(selector_model, selector_prompt (asc ''chest pain''))"
  let ?r1 = "scripted [Inl (asc ''Request timed out.'')]"
  let ?t2 = "asc ''I cannot help with that''"
  let ?r2 = "scripted [Inr (Str ?t2)]"
  let ?t3 = "asc ''7''"
  let ?r3 = "scripted [Inr (Str ?t3)]"
  let ?t4 = \<open>asc ''[1, "Oncologist"]''\<close>
  let ?r4 = "scripted [Inr (Str ?t4)]"
  let ?t5 = \<open>asc ''{"Cardiologist": 1}''\<close>
  let ?r5 = "scripted [Inr (Str ?t5)]"
  let ?t6 = \<open>asc ''"ok"''\<close>
  let ?r6 = "scripted [Inr (Str ?t6)]"
  have f: "fallback = [asc ''Cardiologist'', asc ''Psychologist'', asc ''Pulmonologist'']"
    by (rule fallback_def)
  have r1: "response_text (?r1 [] ?p) = Inl (asc ''Request timed out.'')"
    by (simp add: scripted_def response_text_def)
  have r2: "response_text (?r2 [] ?p) = Inr ?t2"
    by (simp add: scripted_def response_text_def content_text_def)
  have r3: "response_text (?r3 [] ?p) = Inr ?t3"
    by (simp add: scripted_def response_text_def content_text_def)
  have r4: "response_text (?r4 [] ?p) = Inr ?t4"
    by (simp add: scripted_def response_text_def content_text_def)
  have r5: "response_text (?r5 [] ?p) = Inr ?t5"
    by (simp add: scripted_def response_text_def content_text_def)
  have r6: "response_text (?r6 [] ?p) = Inr ?t6"
    by (simp add: scripted_def response_text_def content_text_def)
  have s: "strip_fences ?t2 = ?t2" "strip_fences ?t3 = ?t3" "strip_fences ?t4 = ?t4"
    "strip_fences ?t5 = ?t5" "strip_fences ?t6 = ?t6"
    by (simp_all add: strip_fences_def strip_def isspace_def startswith_def asc_def)
  have j2: "json_loads_examples (strip_fences ?t2) =
            Inl (asc ''Expecting value: line 1 column 1 (char 0)'')"
    unfolding s by (simp add: json_loads_examples_def asc_eq_iff)
  have j3: "json_loads_examples (strip_fences ?t3) = Inr (JInt 7)"
    unfolding s by (simp add: json_loads_examples_def asc_eq_iff)
  have j4: "json_loads_examples (strip_fences ?t4) = Inr (JArr [JInt 1, JStr (asc ''Oncologist'')])"
    unfolding s by (simp add: json_loads_examples_def asc_eq_iff)
  have j5: "json_loads_examples (strip_fences ?t5) = Inr (JObj [(asc ''Cardiologist'', JInt 1)])"
    unfolding s by (simp add: json_loads_examples_def asc_eq_iff)
  have j6: "json_loads_examples (strip_fences ?t6) = Inr (JStr (asc ''ok''))"
    unfolding s by (simp add: json_loads_examples_def asc_eq_iff)
  note t1 = selection_falls_back_on_failure[where remote = ?r1 and calls = "[]"
        and medical_report = "asc ''chest pain''" and json_loads = json_loads_examples]
  note t2 = selection_falls_back_on_failure[where remote = ?r2 and calls = "[]"
        and medical_report = "asc ''chest pain''" and json_loads = json_loads_examples]
  note t3 = selection_falls_back_on_failure[where remote = ?r3 and calls = "[]"
        and medical_report = "asc ''chest pain''" and json_loads = json_loads_examples]
  have 1: "fst (auto_select_specialists ?r1 json_loads_examples (asc ''chest pain'') []) = fallback"
    by (rule t1[THEN conjunct1, rule_format, OF r1])
  have 2: "fst (auto_select_specialists ?r2 json_loads_examples (asc ''chest pain'') []) = fallback"
    by (rule t2[THEN conjunct2, THEN conjunct1, rule_format, OF conjI[OF r2 j2]])
  have n3: "JInt 7 = JNull \<or> (\<exists>b. JInt 7 = JBool b) \<or> (\<exists>i. JInt 7 = JInt i)
            \<or> (\<exists>f. JInt 7 = JFloat f)"
    by simp
  have 3: "fst (auto_select_specialists ?r3 json_loads_examples (asc ''chest pain'') []) = fallback"
    by (rule t3[THEN conjunct2, THEN conjunct2, THEN conjunct1, rule_format,
          OF conjI[OF r3 conjI[OF j3 n3]]])
  have c4: "(\<exists>items. JArr [JInt 1, JStr (asc ''Oncologist'')] = JArr items
                \<and> [asc ''Oncologist''] = concat (map (\<lambda>x. case x of JStr s \<Rightarrow> [s] | _ \<Rightarrow> []) items))
            \<or> (\<exists>kvs. JArr [JInt 1, JStr (asc ''Oncologist'')] = JObj kvs
                \<and> [asc ''Oncologist''] = map fst kvs)
            \<or> (\<exists>s. JArr [JInt 1, JStr (asc ''Oncologist'')] = JStr s
                \<and> [asc ''Oncologist''] = map (\<lambda>c. [c]) s)"
    by simp
  have c5: "(\<exists>items. JObj [(asc ''Cardiologist'', JInt 1)] = JArr items
                \<and> [asc ''Cardiologist''] = concat (map (\<lambda>x. case x of JStr s \<Rightarrow> [s] | _ \<Rightarrow> []) items))
            \<or> (\<exists>kvs. JObj [(asc ''Cardiologist'', JInt 1)] = JObj kvs
                \<and> [asc ''Cardiologist''] = map fst kvs)
            \<or> (\<exists>s. JObj [(asc ''Cardiologist'', JInt 1)] = JStr s
                \<and> [asc ''Cardiologist''] = map (\<lambda>c. [c]) s)"
    by simp
  have c6: "(\<exists>items. JStr (asc ''ok'') = JArr items
                \<and> [[111], [107]] = concat (map (\<lambda>x. case x of JStr s \<Rightarrow> [s] | _ \<Rightarrow> []) items))
            \<or> (\<exists>kvs. JStr (asc ''ok'') = JObj kvs \<and> [[111], [107]] = map fst kvs)
            \<or> (\<exists>s. JStr (asc ''ok'') = JStr s \<and> [[111], [107]] = map (\<lambda>c. [c]) s)"
    by (simp add: asc_def)
  have p4: "take 5 (let valid = filter (\<lambda>s. s \<in> set AVAILABLE_SPECIALISTS) [asc ''Oncologist'']
                 in if length valid < 2 \<and> asc ''General Practitioner'' \<notin> set valid
                    then valid @ [asc ''General Practitioner''] else valid) =
            [asc ''Oncologist'', asc ''General Practitioner'']"
    by (simp add: AVAILABLE_SPECIALISTS_eq asc_eq_iff)
  have p5: "take 5 (let valid = filter (\<lambda>s. s \<in> set AVAILABLE_SPECIALISTS) [asc ''Cardiologist'']
                 in if length valid < 2 \<and> asc ''General Practitioner'' \<notin> set valid
                    then valid @ [asc ''General Practitioner''] else valid) =
            [asc ''Cardiologist'', asc ''General Practitioner'']"
    by (simp add: AVAILABLE_SPECIALISTS_eq asc_eq_iff)
  have p6: "take 5 (let valid = filter (\<lambda>s. s \<in> set AVAILABLE_SPECIALISTS) [[111], [107]]
                 in if length valid < 2 \<and> asc ''General Practitioner'' \<notin> set valid
                    then valid @ [asc ''General Practitioner''] else valid) =
            [asc ''General Practitioner'']"
    by (simp add: AVAILABLE_SPECIALISTS_eq asc_def)
  note t4 = selection_falls_back_on_failure[where remote = ?r4 and calls = "[]"
        and medical_report = "asc ''chest pain''" and json_loads = json_loads_examples]
  note t5 = selection_falls_back_on_failure[where remote = ?r5 and calls = "[]"
        and medical_report = "asc ''chest pain''" and json_loads = json_loads_examples]
  note t6 = selection_falls_back_on_failure[where remote = ?r6 and calls = "[]"
        and medical_report = "asc ''chest pain''" and json_loads = json_loads_examples]
  have 4: "fst (auto_select_specialists ?r4 json_loads_examples (asc ''chest pain'') []) =
           [asc ''Oncologist'', asc ''General Practitioner'']"
    using t4[THEN conjunct2, THEN conjunct2, THEN conjunct2, THEN conjunct1, rule_format,
          OF conjI[OF r4 conjI[OF j4 c4]]]
    unfolding p4 .
  have 5: "fst (auto_select_specialists ?r5 json_loads_examples (asc ''chest pain'') []) =
           [asc ''Cardiologist'', asc ''General Practitioner'']"
    using t5[THEN conjunct2, THEN conjunct2, THEN conjunct2, THEN conjunct1, rule_format,
          OF conjI[OF r5 conjI[OF j5 c5]]]
    unfolding p5 .
  have 6: "fst (auto_select_specialists ?r6 json_loads_examples (asc ''chest pain'') []) =
           [asc ''General Practitioner'']"
    using t6[THEN conjunct2, THEN conjunct2, THEN conjunct2, THEN conjunct1, rule_format,
          OF conjI[OF r6 conjI[OF j6 c6]]]
    unfolding p6 .
  from 1 2 3 4 5 6 show ?thesis
    unfolding f by (intro conjI)
qed

text \<open>
  The claim as stated has the fallback triple whenever the response cannot be parsed as a
  list of strings. The response \<open>[1]\<close> parses as a list that holds a number; its element
  is dropped like an unknown name, and the result is the single name
  \<open>General Practitioner\<close>, not the fallback triple.
\<close>

theorem parsed_non_strings_not_fallback_counterexample:
  "fst (auto_select_specialists (scripted [Inr (Str (asc ''[1]''))])
          json_loads_examples (asc ''chest pain'') []) =
     [asc ''General Practitioner'']"
proof -
  have s: "strip_fences (asc ''[1]'') = asc ''[1]''"
    by (simp add: strip_fences_def strip_def isspace_def startswith_def asc_def)
  have j: "json_loads_examples (asc ''[1]'') = Inr (JArr [JInt 1])"
    by (simp add: json_loads_examples_def asc_eq_iff)
  have v: "select_valid (JArr [JInt 1]) = Inr [asc ''General Practitioner'']"
    by (simp add: select_valid_def is_available_def)
  show ?thesis
    unfolding auto_select_specialists_eq fst_conv
    by (simp add: scripted_def response_text_def content_text_def s j v)
qed

text \<open>
  C9, as amended. Every call that \<open>run_diagnosis\<close> makes (each specialist call and the
  synthesis call, built by \<open>_get_model\<close>) and the one call of
  \<open>auto_select_specialists\<close> ask for temperature 0. The one call of
  \<open>generate_chat_response\<close> asks for temperature 0.3.
\<close>

theorem temperature_zero_except_chat:
  "(\<exists>new. snd (run_diagnosis remote medical_report specialists order calls) = calls @ new
          \<and> (\<forall>c \<in> set new. temperature (fst c) = 0))
   \<and> (\<exists>new. snd (run_specialist remote name medical_report calls) = calls @ new
          \<and> (\<forall>c \<in> set new. temperature (fst c) = 0))
   \<and> (\<exists>p. snd (run_team_diagnosis remote rs calls) = calls @ [(get_model, p)])
   \<and> temperature get_model = 0
   \<and> (\<exists>p. snd (auto_select_specialists remote json_loads medical_report calls) =
             calls @ [(selector_model, p)])
   \<and> temperature selector_model = 0
   \<and> (\<exists>p. snd (generate_chat_response remote diagnosis_context chat_history user_message calls) =
             calls @ [(chat_model, p)])
   \<and> temperature chat_model = 3 / 10"
proof -
  have z: "temperature get_model = 0"
    by (simp add: get_model_def)
  from run_diagnosis_calls[of remote medical_report specialists order calls]
  have 1: "\<exists>new. snd (run_diagnosis remote medical_report specialists order calls) = calls @ new
          \<and> (\<forall>c \<in> set new. temperature (fst c) = 0)"
    using z by auto
  from run_specialist_calls[of remote name medical_report calls]
  have 2: "\<exists>new. snd (run_specialist remote name medical_report calls) = calls @ new
          \<and> (\<forall>c \<in> set new. temperature (fst c) = 0)"
    using z by auto
  have 3: "\<exists>p. snd (run_team_diagnosis remote rs calls) = calls @ [(get_model, p)]"
    by (simp add: run_team_diagnosis_eq)
  have 4: "\<exists>p. snd (auto_select_specialists remote json_loads medical_report calls) =
             calls @ [(selector_model, p)]"
    by (simp add: auto_select_specialists_eq)
  have 5: "temperature selector_model = 0"
    by (simp add: selector_model_def)
  have 6: "\<exists>p. snd (generate_chat_response remote diagnosis_context chat_history user_message calls) =
             calls @ [(chat_model, p)]"
    by (simp add: generate_chat_response_calls)
  have 7: "temperature chat_model = 3 / 10"
    by (simp add: chat_model_def)
  from 1 2 3 z 4 5 6 7 show ?thesis
    by (intro conjI)
qed

theorem temperature_zero_except_chat_witness:
  "map (\<lambda>c. temperature (fst c))
     (snd (run_diagnosis (scripted []) (asc ''chest pain'')
             [asc ''Cardiologist'', asc ''Oncologist''] [1, 0] [])) = [0, 0, 0]
   \<and> map (\<lambda>c. temperature (fst c))
       (snd (auto_select_specialists (scripted []) json_loads_examples (asc ''chest pain'') [])) = [0]
   \<and> map (\<lambda>c. temperature (fst c))
       (snd (generate_chat_response (scripted []) (asc ''diagnosis'') [] (asc ''What now?'') [])) =
       [3 / 10]"
proof -
  let ?names = "[asc ''Cardiologist'', asc ''Oncologist'']"
  note t = temperature_zero_except_chat[where remote = "scripted []"
      and medical_report = "asc ''chest pain''" and specialists = ?names and order = "[1, 0]"
      and calls = "[]" and json_loads = json_loads_examples
      and diagnosis_context = "asc ''diagnosis''" and chat_history = "[]"
      and user_message = "asc ''What now?''"]
  have n: "?names \<noteq> []"
    by simp
  have a: "set ?names \<subseteq> set AVAILABLE_SPECIALISTS"
    by (simp add: AVAILABLE_SPECIALISTS_eq)
  have b: "is_schedule (length ?names) [1, 0]"
    by (auto simp: is_schedule_def)
  have z: "temperature get_model = 0" "temperature selector_model = 0"
    "temperature chat_model = 3 / 10"
    using t by simp_all
  have 1: "map (\<lambda>c. temperature (fst c))
     (snd (run_diagnosis (scripted []) (asc ''chest pain'') ?names [1, 0] [])) = [0, 0, 0]"
    unfolding run_diagnosis_known[OF n a b] by (simp add: Let_def worker_call_def z)
  have 2: "map (\<lambda>c. temperature (fst c))
       (snd (auto_select_specialists (scripted []) json_loads_examples (asc ''chest pain'') [])) = [0]"
    by (simp add: auto_select_specialists_eq z)
  have 3: "map (\<lambda>c. temperature (fst c))
       (snd (generate_chat_response (scripted []) (asc ''diagnosis'') [] (asc ''What now?'') [])) =
       [3 / 10]"
    by (simp add: generate_chat_response_calls z)
  from 1 2 3 show ?thesis
    by (intro conjI)
qed

text \<open>
  The claim as stated has the follow-up chat call ask for temperature 0 as well; the
  call that \<open>generate_chat_response\<close> makes does not.
\<close>

theorem chat_temperature_counterexample:
  "temperature
     (fst (last (snd (generate_chat_response (scripted []) (asc ''diagnosis'') []
                        (asc ''What now?'') [])))) \<noteq> 0"
  by (simp add: generate_chat_response_calls chat_model_def)

text \<open>
  C10. A specialist report and a final diagnosis that were produced successfully are
  the response's text after \<open>_sanitize_text\<close>, which leaves none of the 13 mapped
  characters; a failure placeholder is the fixed words followed by the cause as it is,
  so whatever characters the cause has are in it.
\<close>

theorem outputs_sanitized_placeholders_verbatim:
  assumes "name \<in> set AVAILABLE_SPECIALISTS"
  shows
    "(\<forall>t. response_text (remote calls (get_model, specialist_prompt name medical_report)) = Inr t \<longrightarrow>
        fst (run_specialist remote name medical_report calls) =
          Inr \<lparr>specialist_name = name, report_content = sanitize_text t\<rparr>)
   \<and> (\<forall>e. response_text (remote calls (get_model, specialist_prompt name medical_report)) = Inl e \<longrightarrow>
        fst (run_specialist remote name medical_report calls) =
          Inr \<lparr>specialist_name = name,
               report_content = asc ''Error: Could not generate report. '' @ e\<rparr>)
   \<and> (\<forall>t. response_text (remote calls (get_model, team_prompt rs)) = Inr t \<longrightarrow>
        fst (run_team_diagnosis remote rs calls) = sanitize_text t)
   \<and> (\<forall>e. response_text (remote calls (get_model, team_prompt rs)) = Inl e \<longrightarrow>
        fst (run_team_diagnosis remote rs calls) = asc ''Error generating final diagnosis: '' @ e)
   \<and> set (sanitize_text t) \<inter>
        {0x2018, 0x2019, 0x201C, 0x201D, 0x2013, 0x2014, 0x2026, 0x2022,
         0x00B7, 0x2023, 0x25CF, 0x25CB, 0x2192} = {}"
  using sanitize_text_clean[of t]
  by (simp add: run_specialist_known[OF assms] run_team_diagnosis_eq report_text_def
      mapped_chars_eq)

theorem outputs_sanitized_placeholders_verbatim_witness:
  "asc ''Cardiologist'' \<in> set AVAILABLE_SPECIALISTS
   \<and> fst (run_specialist (scripted [Inr (Str [0x2019, 65])]) (asc ''Cardiologist'') (asc ''chest pain'') []) =
       Inr \<lparr>specialist_name = asc ''Cardiologist'', report_content = [39, 65]\<rparr>
   \<and> fst (run_specialist (scripted [Inl [0x2019, 65]]) (asc ''Cardiologist'') (asc ''chest pain'') []) =
       Inr \<lparr>specialist_name = asc ''Cardiologist'',
            report_content = asc ''Error: Could not generate report. '' @ [0x2019, 65]\<rparr>
   \<and> fst (run_team_diagnosis (scripted [Inr (Str [0x2014])]) [] []) = [45, 45]
   \<and> fst (run_team_diagnosis (scripted [Inl [0x2014]]) [] []) =
       asc ''Error generating final diagnosis: '' @ [0x2014]"
proof -
  have k: "asc ''Cardiologist'' \<in> set AVAILABLE_SPECIALISTS"
    by (simp add: AVAILABLE_SPECIALISTS_eq)
  have s: "sanitize_text [0x2019, 65] = [39, 65]" "sanitize_text [0x2014] = [45, 45]"
    by (simp_all add: sanitize_text_def replacements_def asc_def)
  show ?thesis
    using k
      outputs_sanitized_placeholders_verbatim[OF k, of "scripted [Inr (Str [0x2019, 65])]" "[]" "asc ''chest pain''" "[]"]
      outputs_sanitized_placeholders_verbatim[OF k, of "scripted [Inl [0x2019, 65]]" "[]" "asc ''chest pain''" "[]"]
      outputs_sanitized_placeholders_verbatim[OF k, of "scripted [Inr (Str [0x2014])]" "[]" "asc ''chest pain''" "[]"]
      outputs_sanitized_placeholders_verbatim[OF k, of "scripted [Inl [0x2014]]" "[]" "asc ''chest pain''" "[]"]
    by (simp add: scripted_def response_text_def content_text_def s)
qed

end
